theory Spec2Isabelle
  imports Complex_Main "HOL-Library.Word" "HOL-Library.Multiset"
begin

unbundle bit_operations_syntax

section \<open>Data model\<close>

text \<open>
  The renderer is CUDA C++. A \<^verbatim>\<open>float\<close> is modelled as a \<^typ>\<open>real\<close>: NaN and the
  infinities are outside the model. Rounding is modelled in one place, the accumulation
  of \<^verbatim>\<open>finalGather\<close>, because what is said below of the running mean depends on it: the
  weight \<^verbatim>\<open>1.0f / nIters\<close> is rounded to single precision, and the blend \<^verbatim>\<open>glm::mix\<close> is a
  parameter. Everywhere else a statement about a float value is a statement of exact
  arithmetic. A C \<^verbatim>\<open>int\<close> that is only compared, copied or used as an
  index is an \<^typ>\<open>int\<close>; the integer that is hashed into a seed is a \<^typ>\<open>32 word\<close>.
  A device array is a list; a read or write outside its bounds is undefined behaviour in
  the source, and the theorems name the bounds they rely on.
\<close>

datatype vec3 = Vec3 (vx: real) (vy: real) (vz: real)

definition vadd :: "vec3 \<Rightarrow> vec3 \<Rightarrow> vec3" where
  "vadd a b = Vec3 (vx a + vx b) (vy a + vy b) (vz a + vz b)"

definition vsub :: "vec3 \<Rightarrow> vec3 \<Rightarrow> vec3" where
  "vsub a b = Vec3 (vx a - vx b) (vy a - vy b) (vz a - vz b)"

definition vmul :: "vec3 \<Rightarrow> vec3 \<Rightarrow> vec3" where
  \<comment> \<open>glm's \<^verbatim>\<open>vec3 * vec3\<close>: componentwise\<close>
  "vmul a b = Vec3 (vx a * vx b) (vy a * vy b) (vz a * vz b)"

definition vscale :: "vec3 \<Rightarrow> real \<Rightarrow> vec3" where
  \<comment> \<open>glm's \<^verbatim>\<open>vec3 * float\<close>\<close>
  "vscale a s = Vec3 (vx a * s) (vy a * s) (vz a * s)"

definition vdot :: "vec3 \<Rightarrow> vec3 \<Rightarrow> real" where
  "vdot a b = vx a * vx b + vy a * vy b + vz a * vz b"

definition normalize :: "vec3 \<Rightarrow> vec3" where
  \<comment> \<open>\<^verbatim>\<open>glm::normalize\<close>: \<^verbatim>\<open>v * inversesqrt(dot(v, v))\<close>\<close>
  "normalize v = vscale v (1 / sqrt (vdot v v))"

text \<open>
  Single precision. \<open>binary32 x\<close> is the value a \<^verbatim>\<open>float\<close> operation returns when its exact
  result is \<open>x\<close>: the nearest number with a significand of 24 bits, a tie going to the even
  significand, and with the fixed spacing \<open>2 ^ -149\<close> below \<open>2 ^ -126\<close>. Overflow to infinity
  is outside the model. \<open>binade n x\<close> is the exponent \<open>e\<close> with \<open>2 ^ e \<le> x < 2 ^ (e + 1)\<close> of a
  positive \<open>x\<close>, found in at most \<open>n\<close> halvings or doublings; 300 of them cover the range of
  the format.
\<close>

definition round_to_even :: "real \<Rightarrow> int" where
  \<comment> \<open>the nearest integer, a tie going to the even one\<close>
  "round_to_even x =
     (let f = \<lfloor>x\<rfloor>; r = x - of_int f in
      if r < 1 / 2 then f else if 1 / 2 < r then f + 1 else if even f then f else f + 1)"

fun binade :: "nat \<Rightarrow> real \<Rightarrow> int" where
  "binade 0 x = 0"
| "binade (Suc n) x =
     (if 2 \<le> x then binade n (x / 2) + 1 else if x < 1 then binade n (x * 2) - 1 else 0)"

definition binary32 :: "real \<Rightarrow> real" where
  "binary32 x =
     (if x = 0 then 0
      else let e = max (binade 300 \<bar>x\<bar>) (- 126);
               q = (if 23 \<le> e then 2 ^ nat (e - 23) else 1 / 2 ^ nat (23 - e))
           in of_int (round_to_even (x / q)) * q)"

definition FLT_MAX :: real where
  "FLT_MAX = 340282346638528859811704183484516925440"

definition PI_OVER_2 :: real where
  "PI_OVER_2 = 1.57079632679489661923"

definition PI_OVER_4 :: real where
  "PI_OVER_4 = 0.78539816339744830961"

definition GAMMA :: real where
  "GAMMA = 2.2"

text \<open>
  Modelled from the spec: the structs of \<^verbatim>\<open>sceneStructs.h\<close> (Ray, Camera, Geom, Material,
  Intersection, PathSegment and the primitive kinds), which is not among the sources. The
  fields are the ones the spec's data model lists, under the names the code reads them
  by. A \<^verbatim>\<open>Geom\<close> keeps its transforms and triangle range in the record's extension, which
  only the primitive intersectors read. The field \<^verbatim>\<open>t\<close> of an Intersection is \<open>isect_t\<close>
  and the field \<^verbatim>\<open>type\<close> of a Geom is \<open>geom_type\<close>.
\<close>

record Ray =
  origin :: vec3
  direction :: vec3

record Camera =
  resolution :: "int \<times> int"
  position :: vec3
  view :: vec3
  up :: vec3
  right :: vec3
  pixelLength :: "real \<times> real"
  apertureSize :: real
  focalLength :: real

datatype GeomType = CUBE | SPHERE | GLTF_MESH

record Geom =
  geom_type :: GeomType
  materialid :: int

record Material =
  color :: vec3
  specular_exponent :: real
  specular_color :: vec3
  hasReflective :: bool
  hasRefractive :: bool
  indexOfRefraction :: real
  emittance :: real

record Intersection =
  isect_t :: real
  surfaceNormal :: vec3
  materialId :: int

record PathSegment =
  ray :: Ray
  color :: vec3
  accum_throughput :: vec3
  pixelIndex :: int
  remainingBounces :: int

record uchar4 =
  px :: "8 word"
  py :: "8 word"
  pz :: "8 word"
  pw :: "8 word"

section \<open>Random engine\<close>

text \<open>
  \<^verbatim>\<open>thrust::default_random_engine\<close> is a deterministic generator: what it returns at its
  k-th draw is a function of the seed it was built with. An engine is therefore the pair
  of its seed and the number of draws made so far; the library's output function is a
  parameter.
\<close>

datatype rng = Engine (seed: "32 word") (drawn: nat)

text \<open>
  The functions the kernels call and whose bodies are in headers that are not among the
  sources (\<^verbatim>\<open>utilhash\<close>, the primitive intersectors and \<^verbatim>\<open>getPointOnRay\<close> of
  \<^verbatim>\<open>intersections.h\<close>, \<^verbatim>\<open>sample_f\<close> of \<^verbatim>\<open>interactions.h\<close>), the output function of
  thrust's generator and the blend \<^verbatim>\<open>glm::mix\<close> on \<^verbatim>\<open>float\<close>s, whose order of operations and
  rounding are the library's, are parameters of the model, collected in one record. An intersector
  returns \<^verbatim>\<open>t\<close> and hands back its point, its normal and its \<^verbatim>\<open>outside\<close> flag through
  references: these are results of the call, returned beside \<^verbatim>\<open>t\<close>. \<^verbatim>\<open>sample_f\<close> updates
  the path it is given by reference: it returns the updated path.
\<close>

record ('g, 'tri, 'bvh) device_fns =
  utilhash :: "32 word \<Rightarrow> 32 word"
  uniform01 :: "32 word \<Rightarrow> nat \<Rightarrow> real"
  boxIntersectionTest :: "'g Geom_scheme \<Rightarrow> Ray \<Rightarrow> real \<times> vec3 \<times> vec3 \<times> bool"
  sphereIntersectionTest :: "'g Geom_scheme \<Rightarrow> Ray \<Rightarrow> real \<times> vec3 \<times> vec3 \<times> bool"
  geomIntersectionTest ::
    "'g Geom_scheme \<Rightarrow> Ray \<Rightarrow> 'tri list \<Rightarrow> 'bvh list \<Rightarrow> real \<times> vec3 \<times> vec3"
  getPointOnRay :: "Ray \<Rightarrow> real \<Rightarrow> vec3"
  sample_f :: "PathSegment \<Rightarrow> vec3 \<Rightarrow> vec3 \<Rightarrow> Material \<Rightarrow> rng \<Rightarrow> PathSegment"
  glm_mix :: "vec3 \<Rightarrow> vec3 \<Rightarrow> real \<Rightarrow> vec3"

definition u01 :: "(32 word \<Rightarrow> nat \<Rightarrow> real) \<Rightarrow> rng \<Rightarrow> real \<times> rng" where
  \<comment> \<open>one draw \<^verbatim>\<open>u01(rng)\<close>: the value and the advanced engine\<close>
  "u01 out g = (out (seed g) (drawn g), Engine (seed g) (Suc (drawn g)))"

definition seed_of :: "(32 word \<Rightarrow> 32 word) \<Rightarrow> int \<Rightarrow> int \<Rightarrow> int \<Rightarrow> 32 word" where
  \<comment> \<open>the \<^verbatim>\<open>int h\<close> of \<^verbatim>\<open>makeSeededRandomEngine\<close>, as the 32 bits it holds\<close>
  "seed_of hash iter index depth =
     hash (push_bit 31 1 OR push_bit 22 (word_of_int depth) OR word_of_int iter)
       XOR hash (word_of_int index)"

definition makeSeededRandomEngine ::
  "(32 word \<Rightarrow> 32 word) \<Rightarrow> int \<Rightarrow> int \<Rightarrow> int \<Rightarrow> rng" where
  "makeSeededRandomEngine hash iter index depth = Engine (seed_of hash iter index depth) 0"

text \<open>
  The compile-time switches of the source are fields of a configuration, so that a
  statement can speak of a stage being enabled. The last field is not a switch of the
  source but a choice of the compiler: the order in which the two arguments of
  \<^verbatim>\<open>glm::vec2(u01(rng), u01(rng))\<close> are evaluated, which C++ leaves unspecified.
  \<open>as_built\<close> holds the values the source defines for the switches, and the order right to
  left.
\<close>

record config =
  SORT_BY_MATERIAL :: bool
  STREAM_COMPACT :: bool
  CACHE_FIRST_INTERSECTION :: bool
  ENABLE_HDR_GAMMA_CORRECTION :: bool
  ARGS_RIGHT_TO_LEFT :: bool

definition as_built :: config where
  "as_built = \<lparr>SORT_BY_MATERIAL = False, STREAM_COMPACT = False,
     CACHE_FIRST_INTERSECTION = False, ENABLE_HDR_GAMMA_CORRECTION = False,
     ARGS_RIGHT_TO_LEFT = True\<rparr>"

section \<open>Camera rays\<close>

definition squareToDiskConcentric :: "real \<times> real \<Rightarrow> vec3" where
  "squareToDiskConcentric xi =
     (let sx = 2 * fst xi - 1; sy = 2 * snd xi - 1 in
      if sx = 0 \<and> sy = 0 then Vec3 0 0 0
      else
        let (radius, theta) =
              (if \<bar>sx\<bar> > \<bar>sy\<bar> then (sx, PI_OVER_4 * (sy / sx))
               else (sy, PI_OVER_2 - PI_OVER_4 * (sx / sy)))
        in Vec3 (cos theta * radius) (sin theta * radius) 0)"

definition cameraToWorld :: "vec3 \<Rightarrow> 'c Camera_scheme \<Rightarrow> vec3" where
  \<comment> \<open>\<^verbatim>\<open>glm::mat3(right, up, view) * p\<close>: the three vectors are the columns\<close>
  "cameraToWorld p cam =
     vadd (position cam)
       (vadd (vadd (vscale (right cam) (vx p)) (vscale (up cam) (vy p))) (vscale (view cam) (vz p)))"

text \<open>
  The body of one thread of \<^verbatim>\<open>generateRayFromCamera\<close> that passed the resolution guard:
  the segment it leaves in its slot. \<open>camera_sample\<close> is the part that draws from the
  engine, from the declaration of \<^verbatim>\<open>u01\<close> to the assignment of the direction, as a function
  of the engine; \<open>camera_segment\<close> is the whole body. \<open>lens_args\<close> is the evaluation of
  \<^verbatim>\<open>glm::vec2(u01(rng), u01(rng))\<close>: the two draws are consecutive, and which of the two
  arguments takes the earlier one is the compiler's choice.
\<close>

definition lens_args :: "config \<Rightarrow> (32 word \<Rightarrow> nat \<Rightarrow> real) \<Rightarrow> rng \<Rightarrow> (real \<times> real) \<times> rng" where
  "lens_args cfg out rng =
     (if ARGS_RIGHT_TO_LEFT cfg
      then let (b, rng) = u01 out rng; (a, rng) = u01 out rng in ((a, b), rng)
      else let (a, rng) = u01 out rng; (b, rng) = u01 out rng in ((a, b), rng))"

definition camera_sample ::
  "config \<Rightarrow> (32 word \<Rightarrow> nat \<Rightarrow> real) \<Rightarrow> 'c Camera_scheme \<Rightarrow> nat \<Rightarrow> nat \<Rightarrow> rng \<Rightarrow>
     PathSegment \<Rightarrow> PathSegment" where
  "camera_sample cfg out cam x y rng segment =
     (let (xOffset, yOffset, rng) =
            (if CACHE_FIRST_INTERSECTION cfg then (0, 0, rng)
             else let (a, rng) = u01 out rng; (b, rng) = u01 out rng
                  in (a, b, rng));
          dir = normalize (vsub
                  (vsub (view cam)
                     (vscale (vscale (right cam) (fst (pixelLength cam)))
                        (real x + xOffset - real_of_int (fst (resolution cam)) * 0.5)))
                  (vscale (vscale (up cam) (snd (pixelLength cam)))
                     (real y + yOffset - real_of_int (snd (resolution cam)) * 0.5)));
          (segment, dir) =
            (if apertureSize cam > 0 then
               let focalT = focalLength cam * vdot (view cam) (view cam) / vdot dir (view cam);
                   focalPt = vadd (position cam) (vscale dir focalT);
                   (xi, rng) = lens_args cfg out rng;
                   ptOnLens = vscale (squareToDiskConcentric xi) (apertureSize cam);
                   ptOnLens = cameraToWorld ptOnLens cam
               in (segment\<lparr>ray := (ray segment)\<lparr>origin := ptOnLens\<rparr>\<rparr>,
                   normalize (vsub focalPt ptOnLens))
             else (segment, dir))
      in segment\<lparr>ray := (ray segment)\<lparr>direction := dir\<rparr>\<rparr>)"

definition camera_segment ::
  "config \<Rightarrow> ('g, 'tri, 'bvh, 'z) device_fns_scheme \<Rightarrow> 'c Camera_scheme \<Rightarrow> int \<Rightarrow> int \<Rightarrow>
     nat \<Rightarrow> nat \<Rightarrow> PathSegment \<Rightarrow> PathSegment" where
  "camera_segment cfg fns cam iter traceDepth x y segment0 =
     (let index = int x + int y * fst (resolution cam);
          segment = segment0\<lparr>ray := (ray segment0)\<lparr>origin := position cam\<rparr>,
                      color := Vec3 0 0 0, accum_throughput := Vec3 1 1 1\<rparr>;
          rng = makeSeededRandomEngine (utilhash fns) iter index traceDepth;
          segment = camera_sample cfg (uniform01 fns) cam x y rng segment
      in segment\<lparr>pixelIndex := index, remainingBounces := traceDepth\<rparr>)"

definition generateRayFromCamera ::
  "config \<Rightarrow> ('g, 'tri, 'bvh, 'z) device_fns_scheme \<Rightarrow> 'c Camera_scheme \<Rightarrow> int \<Rightarrow> int \<Rightarrow>
     nat \<times> nat \<Rightarrow> PathSegment list \<Rightarrow> PathSegment list" where
  \<comment> \<open>the thread with coordinates \<open>(x, y)\<close>\<close>
  "generateRayFromCamera cfg fns cam iter traceDepth xy pathSegments =
     (let x = fst xy; y = snd xy in
      if int x < fst (resolution cam) \<and> int y < snd (resolution cam) then
        let index = int x + int y * fst (resolution cam)
        in pathSegments[nat index :=
             camera_segment cfg fns cam iter traceDepth x y (pathSegments ! nat index)]
      else pathSegments)"

section \<open>Kernel launches\<close>

text \<open>
  A kernel is modelled by the function of one thread, which takes the thread's index and
  the memory the kernel writes. A launch runs every thread of the grid. The threads
  of each kernel below write disjoint slots (each its own index; \<^verbatim>\<open>finalGather\<close> the
  pixel index of its path), so a launch is the fold of the thread function over the grid.
  One-dimensional launches use blocks of 128 threads and
  \<^verbatim>\<open>(n + blockSize1d - 1) / blockSize1d\<close> blocks; the two-dimensional ones blocks of 8 by 8.
\<close>

definition launch1d :: "int \<Rightarrow> (nat \<Rightarrow> 's \<Rightarrow> 's) \<Rightarrow> 's \<Rightarrow> 's" where
  "launch1d n thread s = fold thread [0..<128 * nat ((n + 128 - 1) div 128)] s"

definition launch2d :: "int \<times> int \<Rightarrow> (nat \<times> nat \<Rightarrow> 's \<Rightarrow> 's) \<Rightarrow> 's \<Rightarrow> 's" where
  "launch2d res thread s =
     fold thread
       (List.product [0..<8 * nat ((fst res + 8 - 1) div 8)] [0..<8 * nat ((snd res + 8 - 1) div 8)])
       s"

section \<open>Scene dispatch\<close>

text \<open>
  The local variables of one thread of \<^verbatim>\<open>computeIntersections\<close>. The source leaves \<^verbatim>\<open>t\<close>,
  \<^verbatim>\<open>intersect_point\<close>, \<^verbatim>\<open>normal\<close>, \<^verbatim>\<open>tmp_intersect\<close> and \<^verbatim>\<open>tmp_normal\<close> uninitialised; each
  is assigned before it is read, and the model starts them at zero. The local \<^verbatim>\<open>t\<close> is
  \<open>cur_t\<close>.
\<close>

record isect_locals =
  cur_t :: real
  intersect_point :: vec3
  normal :: vec3
  t_min :: real
  hit_geom_index :: int
  outside :: bool
  tmp_intersect :: vec3
  tmp_normal :: vec3

definition isect_locals_init :: isect_locals where
  "isect_locals_init = \<lparr>cur_t = 0, intersect_point = Vec3 0 0 0, normal = Vec3 0 0 0,
     t_min = FLT_MAX, hit_geom_index = - 1, outside = True,
     tmp_intersect = Vec3 0 0 0, tmp_normal = Vec3 0 0 0\<rparr>"

definition geom_loop_body ::
  "('g, 'tri, 'bvh, 'z) device_fns_scheme \<Rightarrow> Ray \<Rightarrow> 'g Geom_scheme list \<Rightarrow> 'tri list \<Rightarrow>
     'bvh list \<Rightarrow> nat \<Rightarrow> isect_locals \<Rightarrow> isect_locals" where
  \<comment> \<open>the body of \<^verbatim>\<open>for (int i = 0; i < geoms_size; i++)\<close>\<close>
  "geom_loop_body fns r geoms tris bvhNodes i s =
     (let geom = geoms ! i;
          s = (case geom_type geom of
                 CUBE \<Rightarrow>
                   (let (t, p, n, out) = boxIntersectionTest fns geom r
                    in s\<lparr>cur_t := t, tmp_intersect := p, tmp_normal := n, outside := out\<rparr>)
               | SPHERE \<Rightarrow>
                   (let (t, p, n, out) = sphereIntersectionTest fns geom r
                    in s\<lparr>cur_t := t, tmp_intersect := p, tmp_normal := n, outside := out\<rparr>)
               | GLTF_MESH \<Rightarrow>
                   (let (t, p, n) = geomIntersectionTest fns geom r tris bvhNodes
                    in s\<lparr>cur_t := t, tmp_intersect := p, tmp_normal := n\<rparr>))
      in if cur_t s > 0 \<and> t_min s > cur_t s
         then s\<lparr>t_min := cur_t s, hit_geom_index := int i,
                intersect_point := tmp_intersect s, normal := tmp_normal s\<rparr>
         else s)"

definition geom_loop ::
  "('g, 'tri, 'bvh, 'z) device_fns_scheme \<Rightarrow> Ray \<Rightarrow> 'g Geom_scheme list \<Rightarrow> 'tri list \<Rightarrow>
     'bvh list \<Rightarrow> nat \<Rightarrow> isect_locals" where
  \<comment> \<open>the locals after the first \<open>n\<close> rounds of the loop\<close>
  "geom_loop fns r geoms tris bvhNodes n =
     fold (geom_loop_body fns r geoms tris bvhNodes) [0..<n] isect_locals_init"

definition computeIntersections ::
  "('g, 'tri, 'bvh, 'z) device_fns_scheme \<Rightarrow> int \<Rightarrow> int \<Rightarrow> PathSegment list \<Rightarrow>
     'g Geom_scheme list \<Rightarrow> int \<Rightarrow> 'tri list \<Rightarrow> int \<Rightarrow> 'bvh list \<Rightarrow> int \<Rightarrow>
     nat \<Rightarrow> Intersection list \<Rightarrow> Intersection list" where
  \<comment> \<open>the thread with index \<open>path_index\<close>\<close>
  "computeIntersections fns depth num_paths pathSegments geoms geoms_size tris tri_size
       bvhNodes bvhNodes_size path_index intersections =
     (if int path_index < num_paths then
        let pathSegment = pathSegments ! path_index;
            s = geom_loop fns (ray pathSegment) geoms tris bvhNodes (nat geoms_size)
        in if hit_geom_index s = - 1
           then intersections[path_index := (intersections ! path_index)\<lparr>isect_t := - 1\<rparr>]
           else intersections[path_index := (intersections ! path_index)
                  \<lparr>isect_t := t_min s,
                   materialId := materialid (geoms ! nat (hit_geom_index s)),
                   surfaceNormal := normal s\<rparr>]
      else intersections)"

section \<open>Shading\<close>

definition kernel_sample_f ::
  "('g, 'tri, 'bvh, 'z) device_fns_scheme \<Rightarrow> int \<Rightarrow> int \<Rightarrow> int \<Rightarrow> Intersection list \<Rightarrow>
     Material list \<Rightarrow> nat \<Rightarrow> PathSegment list \<Rightarrow> PathSegment list" where
  \<comment> \<open>the thread with index \<open>idx\<close>\<close>
  "kernel_sample_f fns iter depth num_paths isects mats idx paths =
     (if int idx \<ge> num_paths then paths
      else
        let isect = isects ! idx; path = paths ! idx in
        if remainingBounces path = 0 then paths
        else if isect_t isect > 0 then
          let mat = mats ! nat (materialId isect);
              rng = makeSeededRandomEngine (utilhash fns) iter (int idx) depth
          in if emittance mat > 0
             then paths[idx := path
                    \<lparr>color := vmul (vscale (Material.color mat) (emittance mat))
                                (accum_throughput path),
                     remainingBounces := 0\<rparr>]
             else
               let p = getPointOnRay fns (ray path) (isect_t isect)
               in paths[idx := sample_f fns path p (surfaceNormal isect) mat rng]
        else paths[idx := path\<lparr>color := Vec3 0 0 0, remainingBounces := 0\<rparr>])"

section \<open>Accumulation and display\<close>

definition finalGather ::
  "('g, 'tri, 'bvh, 'z) device_fns_scheme \<Rightarrow> int \<Rightarrow> int \<Rightarrow> PathSegment list \<Rightarrow> nat \<Rightarrow>
     vec3 list \<Rightarrow> vec3 list" where
  \<comment> \<open>the thread with index \<open>index\<close>; \<^verbatim>\<open>1.0f / nIters\<close> converts the \<^verbatim>\<open>int\<close> and divides, in
      single precision\<close>
  "finalGather fns nPaths nIters iterationPaths index img =
     (if int index < nPaths then
        let iterationPath = iterationPaths ! index
        in img[nat (pixelIndex iterationPath) :=
             glm_mix fns (img ! nat (pixelIndex iterationPath)) (color iterationPath)
               (binary32 (1 / binary32 (real_of_int nIters)))]
      else img)"

definition float_to_int :: "real \<Rightarrow> int" where
  \<comment> \<open>the cast \<^verbatim>\<open>(int)\<close>: towards zero\<close>
  "float_to_int r = (if 0 \<le> r then \<lfloor>r\<rfloor> else \<lceil>r\<rceil>)"

definition clamp_int :: "int \<Rightarrow> int \<Rightarrow> int \<Rightarrow> int" where
  \<comment> \<open>\<^verbatim>\<open>glm::clamp(x, minVal, maxVal)\<close>: \<^verbatim>\<open>min(max(x, minVal), maxVal)\<close>\<close>
  "clamp_int v lo hi = min (max v lo) hi"

definition reinhard :: "vec3 \<Rightarrow> vec3" where
  \<comment> \<open>\<^verbatim>\<open>pix / (pix + glm::vec3(1.0f))\<close>\<close>
  "reinhard pix = Vec3 (vx pix / (vx pix + 1)) (vy pix / (vy pix + 1)) (vz pix / (vz pix + 1))"

definition gamma_correct :: "vec3 \<Rightarrow> vec3" where
  \<comment> \<open>\<^verbatim>\<open>glm::pow(pix, glm::vec3(1.0 / GAMMA))\<close>\<close>
  "gamma_correct pix =
     Vec3 (vx pix powr (1 / GAMMA)) (vy pix powr (1 / GAMMA)) (vz pix powr (1 / GAMMA))"

definition display_pixel :: "config \<Rightarrow> vec3 \<Rightarrow> vec3" where
  \<comment> \<open>the block under \<^verbatim>\<open>#if ENABLE_HDR_GAMMA_CORRECTION\<close>\<close>
  "display_pixel cfg pix =
     (if ENABLE_HDR_GAMMA_CORRECTION cfg then gamma_correct (reinhard pix) else pix)"

definition quantise :: "real \<Rightarrow> int" where
  \<comment> \<open>\<^verbatim>\<open>glm::clamp((int)(c * 255.0), 0, 255)\<close>\<close>
  "quantise c = clamp_int (float_to_int (c * 255)) 0 255"

definition sendImageToPBO ::
  "config \<Rightarrow> int \<times> int \<Rightarrow> int \<Rightarrow> vec3 list \<Rightarrow> nat \<times> nat \<Rightarrow> uchar4 list \<Rightarrow> uchar4 list" where
  \<comment> \<open>the thread with coordinates \<open>(x, y)\<close>\<close>
  "sendImageToPBO cfg res iter img xy pbo =
     (let x = fst xy; y = snd xy in
      if int x < fst res \<and> int y < snd res then
        let index = int x + int y * fst res;
            pix = display_pixel cfg (img ! nat index)
        in pbo[nat index := (pbo ! nat index)
             \<lparr>pw := 0,
              px := word_of_int (quantise (vx pix)),
              py := word_of_int (quantise (vy pix)),
              pz := word_of_int (quantise (vz pix))\<rparr>]
      else pbo)"

section \<open>The iteration\<close>

text \<open>
  Modelled from the spec: the class \<^verbatim>\<open>Scene\<close> of \<^verbatim>\<open>scene.h\<close>, which is not among the
  sources; the record holds what \<^verbatim>\<open>pathtrace\<close> reads of \<^verbatim>\<open>hst_scene\<close>. The second record
  is the memory the stages share: the
  device arrays, the pixel buffer \<^verbatim>\<open>pbo\<close>, the host copy of the image and the
  \<^verbatim>\<open>TracedDepth\<close> of \<^verbatim>\<open>guiData\<close> (\<open>None\<close> when the pointer is null). The field
  \<open>shade_launches\<close> is not memory of the program: it records the arguments
  \<open>(iter, depth, num_paths)\<close> of every launch of \<^verbatim>\<open>kernel_sample_f\<close>, oldest first, so that
  statements can speak of the launches an iteration made.
\<close>

record ('g, 'tri, 'bvh) Scene =
  camera :: Camera
  traceDepth :: int
  geoms :: "'g Geom_scheme list"
  tris :: "'tri list"
  bvhNodes :: "'bvh list"
  materials :: "Material list"

record device_state =
  dev_image :: "vec3 list"
  dev_paths :: "PathSegment list"
  dev_intersections :: "Intersection list"
  dev_cached_intersections :: "Intersection list"
  pbo_buf :: "uchar4 list"
  host_image :: "vec3 list"
  guiTracedDepth :: "int option"
  shade_launches :: "(int \<times> int \<times> int) list"

definition zero_Intersection :: Intersection where
  "zero_Intersection = \<lparr>isect_t = 0, surfaceNormal = Vec3 0 0 0, materialId = 0\<rparr>"

definition cudaMemset0 :: "nat \<Rightarrow> 'a \<Rightarrow> 'a list \<Rightarrow> 'a list" where
  \<comment> \<open>the first \<open>n\<close> elements become the all-zero value \<open>z\<close>\<close>
  "cudaMemset0 n z dst = replicate n z @ drop n dst"

definition cudaMemcpy :: "nat \<Rightarrow> 'a list \<Rightarrow> 'a list \<Rightarrow> 'a list" where
  \<comment> \<open>the first \<open>n\<close> elements of \<open>src\<close> over those of \<open>dst\<close>\<close>
  "cudaMemcpy n src dst = take n src @ drop n dst"

definition pathtraceInit ::
  "config \<Rightarrow> ('g, 'tri, 'bvh, 'z) Scene_scheme \<Rightarrow> PathSegment list \<Rightarrow> device_state \<Rightarrow> device_state" where
  \<comment> \<open>\<open>fresh_paths\<close>: the contents of the path pool as \<^verbatim>\<open>cudaMalloc\<close> leaves them\<close>
  "pathtraceInit cfg scene fresh_paths d =
     (let cam = camera scene;
          pixelcount = nat (fst (resolution cam) * snd (resolution cam))
      in d\<lparr>dev_image := replicate pixelcount (Vec3 0 0 0),
           dev_paths := fresh_paths,
           dev_intersections := replicate pixelcount zero_Intersection,
           dev_cached_intersections :=
             (if CACHE_FIRST_INTERSECTION cfg then replicate pixelcount zero_Intersection
              else dev_cached_intersections d)\<rparr>)"

definition notEquals :: "int \<Rightarrow> PathSegment \<Rightarrow> bool" where
  "notEquals a x = (remainingBounces x \<noteq> a)"

definition sortByMaterialId :: "Intersection \<Rightarrow> Intersection \<Rightarrow> bool" where
  "sortByMaterialId isect1 isect2 = (materialId isect1 < materialId isect2)"

text \<open>
  The two thrust algorithms the loop calls, by their documented results.
  \<^verbatim>\<open>stable_partition\<close> moves the elements that satisfy the predicate in front of the others,
  keeps the order inside each group and returns the end of the first group.
  \<^verbatim>\<open>stable_sort_by_key\<close> with the comparison \<^verbatim>\<open>sortByMaterialId\<close> sorts the keys by material
  id, keeps the order of equal keys and moves each value with its key.
\<close>

definition stable_partition :: "('a \<Rightarrow> bool) \<Rightarrow> 'a list \<Rightarrow> 'a list \<times> nat" where
  "stable_partition P xs = (filter P xs @ filter (\<lambda>x. \<not> P x) xs, length (filter P xs))"

definition stable_sort_by_key ::
  "Intersection list \<Rightarrow> PathSegment list \<Rightarrow> Intersection list \<times> PathSegment list" where
  "stable_sort_by_key keys vals =
     (let zs = sort_key (\<lambda>kv. materialId (fst kv)) (zip keys vals) in (map fst zs, map snd zs))"

definition stream_compact :: "int \<Rightarrow> PathSegment list \<Rightarrow> PathSegment list \<times> int" where
  \<comment> \<open>the block under \<^verbatim>\<open>#if STREAM_COMPACT\<close>: the new pool and the new \<^verbatim>\<open>num_paths\<close>\<close>
  "stream_compact num_paths paths =
     (let (front, k) = stable_partition (notEquals 0) (take (nat num_paths) paths)
      in (front @ drop (nat num_paths) paths, int k))"

definition sort_by_material ::
  "int \<Rightarrow> Intersection list \<Rightarrow> PathSegment list \<Rightarrow> Intersection list \<times> PathSegment list" where
  \<comment> \<open>the block under \<^verbatim>\<open>#if SORT_BY_MATERIAL\<close>\<close>
  "sort_by_material num_paths isects paths =
     (let (ks, vs) = stable_sort_by_key (take (nat num_paths) isects) (take (nat num_paths) paths)
      in (ks @ drop (nat num_paths) isects, vs @ drop (nat num_paths) paths))"

definition bounce ::
  "config \<Rightarrow> ('g, 'tri, 'bvh, 'z) device_fns_scheme \<Rightarrow> ('g, 'tri, 'bvh, 'y) Scene_scheme \<Rightarrow> int \<Rightarrow>
     int \<Rightarrow> int \<Rightarrow> int \<Rightarrow> device_state \<Rightarrow> int \<times> device_state" where
  \<comment> \<open>the body of the \<^verbatim>\<open>while\<close> loop down to the stream compaction, entered with \<open>depth\<close>
      and \<open>num_paths\<close>: the new \<open>num_paths\<close> and the new memory\<close>
  "bounce cfg fns scene iter pixelcount depth num_paths d =
     (let d = (if CACHE_FIRST_INTERSECTION cfg \<and> depth = 0 \<and> iter > 1
               then d\<lparr>dev_intersections :=
                        cudaMemcpy (nat pixelcount) (dev_cached_intersections d) (dev_intersections d)\<rparr>
               else d\<lparr>dev_intersections :=
                        launch1d num_paths
                          (computeIntersections fns depth num_paths (dev_paths d) (geoms scene)
                             (int (length (geoms scene))) (tris scene) (int (length (tris scene)))
                             (bvhNodes scene) (int (length (bvhNodes scene))))
                          (cudaMemset0 (nat pixelcount) zero_Intersection (dev_intersections d))\<rparr>);
          d = (if CACHE_FIRST_INTERSECTION cfg \<and> depth = 0 \<and> iter = 1
               then d\<lparr>dev_cached_intersections :=
                        cudaMemcpy (nat pixelcount) (dev_intersections d) (dev_cached_intersections d)\<rparr>
               else d);
          depth = depth + 1;
          d = (if SORT_BY_MATERIAL cfg
               then let (ks, vs) = sort_by_material num_paths (dev_intersections d) (dev_paths d)
                    in d\<lparr>dev_intersections := ks, dev_paths := vs\<rparr>
               else d);
          d = d\<lparr>dev_paths :=
                  launch1d num_paths
                    (kernel_sample_f fns iter depth num_paths (dev_intersections d) (materials scene))
                    (dev_paths d),
                shade_launches := shade_launches d @ [(iter, depth, num_paths)]\<rparr>
      in if STREAM_COMPACT cfg
         then let (ps, n) = stream_compact num_paths (dev_paths d) in (n, d\<lparr>dev_paths := ps\<rparr>)
         else (num_paths, d))"

function trace_loop ::
  "config \<Rightarrow> ('g, 'tri, 'bvh, 'z) device_fns_scheme \<Rightarrow> ('g, 'tri, 'bvh, 'y) Scene_scheme \<Rightarrow> int \<Rightarrow>
     int \<Rightarrow> int \<Rightarrow> int \<Rightarrow> device_state \<Rightarrow> int \<times> int \<times> device_state" where
  "trace_loop cfg fns scene iter pixelcount depth num_paths d =
     (let nd = bounce cfg fns scene iter pixelcount depth num_paths d;
          depth' = depth + 1;
          iterationComplete = (depth' \<ge> traceDepth scene \<or> fst nd = 0);
          d' = (snd nd)\<lparr>guiTracedDepth := map_option (\<lambda>_. depth') (guiTracedDepth (snd nd))\<rparr>
      in if iterationComplete then (depth', fst nd, d')
         else trace_loop cfg fns scene iter pixelcount depth' (fst nd) d')"
  by pat_completeness auto
termination
  by (relation "measure (\<lambda>(cfg, fns, scene, iter, pixelcount, depth, num_paths, d).
        nat (traceDepth scene - depth))") auto

declare trace_loop.simps [simp del]

definition present :: "config \<Rightarrow> int \<times> int \<Rightarrow> int \<Rightarrow> device_state \<Rightarrow> device_state" where
  \<comment> \<open>the display pass: the launch of \<^verbatim>\<open>sendImageToPBO\<close> over the pixel buffer\<close>
  "present cfg res iter d =
     d\<lparr>pbo_buf := launch2d res (sendImageToPBO cfg res iter (dev_image d)) (pbo_buf d)\<rparr>"

definition pathtrace ::
  "config \<Rightarrow> ('g, 'tri, 'bvh, 'z) device_fns_scheme \<Rightarrow> ('g, 'tri, 'bvh, 'y) Scene_scheme \<Rightarrow> int \<Rightarrow>
     device_state \<Rightarrow> device_state" where
  "pathtrace cfg fns scene iter d =
     (let cam = camera scene;
          pixelcount = fst (resolution cam) * snd (resolution cam);
          d = d\<lparr>dev_paths :=
                  launch2d (resolution cam)
                    (generateRayFromCamera cfg fns cam iter (traceDepth scene)) (dev_paths d)\<rparr>;
          (depth, num_paths, d) = trace_loop cfg fns scene iter pixelcount 0 pixelcount d;
          d = d\<lparr>dev_image :=
                  launch1d pixelcount (finalGather fns pixelcount iter (dev_paths d)) (dev_image d)\<rparr>;
          d = present cfg (resolution cam) iter d
      in d\<lparr>host_image := cudaMemcpy (nat pixelcount) (dev_image d) (host_image d)\<rparr>)"

section \<open>Vocabulary of the statements\<close>

text \<open>
  What the statements below speak of: the sequence of values drawn from an engine, one
  launch of the shading kernel as a function of its arguments, the number of draws a
  camera thread makes before it samples the lens, and what the intersector of one
  instance returns.
\<close>

fun draws :: "(32 word \<Rightarrow> nat \<Rightarrow> real) \<Rightarrow> rng \<Rightarrow> nat \<Rightarrow> real list" where
  \<comment> \<open>the values of the first \<open>n\<close> draws \<^verbatim>\<open>u01(rng)\<close> from an engine\<close>
  "draws out g 0 = []"
| "draws out g (Suc n) = (let (v, g') = u01 out g in v # draws out g' n)"

definition shade ::
  "('g, 'tri, 'bvh, 'z) device_fns_scheme \<Rightarrow>
     int \<times> int \<times> int \<times> Intersection list \<times> Material list \<Rightarrow>
     PathSegment list \<Rightarrow> PathSegment list" where
  \<comment> \<open>one launch of \<^verbatim>\<open>kernel_sample_f\<close> with the arguments \<open>(iter, depth, num_paths, isects, mats)\<close>\<close>
  "shade fns call paths =
     (case call of (iter, depth, num_paths, isects, mats) \<Rightarrow>
        launch1d num_paths (kernel_sample_f fns iter depth num_paths isects mats) paths)"

definition lens_draw_offset :: "config \<Rightarrow> nat" where
  \<comment> \<open>how many draws the camera thread made before it samples the lens\<close>
  "lens_draw_offset cfg = (if CACHE_FIRST_INTERSECTION cfg then 0 else 2)"

definition dispatch ::
  "('g, 'tri, 'bvh, 'z) device_fns_scheme \<Rightarrow> Ray \<Rightarrow> 'tri list \<Rightarrow> 'bvh list \<Rightarrow>
     'g Geom_scheme \<Rightarrow> real \<times> vec3" where
  \<comment> \<open>what the intersector chosen by the kind of an instance returns: \<open>t\<close> and the normal\<close>
  "dispatch fns r ts bs geom =
     (case geom_type geom of
        CUBE \<Rightarrow> (let (t, p, n, out) = boxIntersectionTest fns geom r in (t, n))
      | SPHERE \<Rightarrow> (let (t, p, n, out) = sphereIntersectionTest fns geom r in (t, n))
      | GLTF_MESH \<Rightarrow> (let (t, p, n) = geomIntersectionTest fns geom r ts bs in (t, n)))"

definition nearest ::
  "(nat \<Rightarrow> real) \<Rightarrow> nat \<Rightarrow> nat \<Rightarrow> bool" where
  \<comment> \<open>instance \<open>k\<close> is the nearest hit among the first \<open>n\<close>: its \<open>t\<close> is positive and below
      \<open>FLT_MAX\<close>, no positive \<open>t\<close> is smaller, and none at a lower index is as small\<close>
  "nearest tt n k =
     (k < n \<and> 0 < tt k \<and> tt k < FLT_MAX
      \<and> (\<forall>j<n. 0 < tt j \<longrightarrow> tt k \<le> tt j)
      \<and> (\<forall>j<k. 0 < tt j \<longrightarrow> tt k < tt j))"

text \<open>
  The first half of \<^verbatim>\<open>pathtrace\<close>, the generation of the camera rays and the bounce loop:
  \<open>traced\<close> is the depth and the \<^verbatim>\<open>num_paths\<close> the loop ends with and the memory it leaves,
  which is what \<^verbatim>\<open>finalGather\<close> then reads.
\<close>

definition traced ::
  "config \<Rightarrow> ('g, 'tri, 'bvh, 'z) device_fns_scheme \<Rightarrow> ('g, 'tri, 'bvh, 'y) Scene_scheme \<Rightarrow> int \<Rightarrow>
     device_state \<Rightarrow> int \<times> int \<times> device_state" where
  "traced cfg fns scene iter d =
     (let cam = camera scene;
          pixelcount = fst (resolution cam) * snd (resolution cam)
      in trace_loop cfg fns scene iter pixelcount 0 pixelcount
           (d\<lparr>dev_paths :=
                launch2d (resolution cam)
                  (generateRayFromCamera cfg fns cam iter (traceDepth scene)) (dev_paths d)\<rparr>))"

text \<open>
  Modelled from the spec: the caller of \<^verbatim>\<open>pathtrace\<close>, which is not among the sources. The
  spec runs the pipeline "per iteration \<open>i \<in> [1, ITERATIONS]\<close>": \<open>render N\<close> is the memory
  after the calls of \<^verbatim>\<open>pathtrace\<close> for the iterations \<open>1, \<dots>, N\<close>. The colour estimate of
  iteration \<open>k\<close> for pixel \<open>p\<close> is the colour of the path of that pixel in the pool the
  bounces of iteration \<open>k\<close> leave.
\<close>

fun render ::
  "config \<Rightarrow> ('g, 'tri, 'bvh, 'z) device_fns_scheme \<Rightarrow> ('g, 'tri, 'bvh, 'y) Scene_scheme \<Rightarrow> nat \<Rightarrow>
     device_state \<Rightarrow> device_state" where
  "render cfg fns scene 0 d = d"
| "render cfg fns scene (Suc k) d =
     pathtrace cfg fns scene (int (Suc k)) (render cfg fns scene k d)"

definition vsum :: "vec3 list \<Rightarrow> vec3" where
  "vsum cs = foldr vadd cs (Vec3 0 0 0)"

definition estimate :: "PathSegment list \<Rightarrow> nat \<Rightarrow> vec3" where
  \<comment> \<open>the colour of the path of pixel \<open>p\<close> in a pool\<close>
  "estimate pool p =
     (case find (\<lambda>q. pixelIndex q = int p) pool of Some q \<Rightarrow> color q | None \<Rightarrow> Vec3 0 0 0)"

definition iteration_estimate ::
  "config \<Rightarrow> ('g, 'tri, 'bvh, 'z) device_fns_scheme \<Rightarrow> ('g, 'tri, 'bvh, 'y) Scene_scheme \<Rightarrow>
     device_state \<Rightarrow> nat \<Rightarrow> nat \<Rightarrow> vec3" where
  \<comment> \<open>the colour estimate of iteration \<open>Suc k\<close> for pixel \<open>p\<close>, in a run that starts from \<open>d\<close>\<close>
  "iteration_estimate cfg fns scene d k p =
     estimate
       (dev_paths (snd (snd (traced cfg fns scene (int (Suc k)) (render cfg fns scene k d))))) p"

text \<open>
  The recurrence of the accumulation: \<open>running_blend blend weight i m cs\<close> blends the
  colours \<open>cs\<close> one after the other into \<open>m\<close>, the first with the weight of \<open>i\<close>, the next
  with the weight of \<open>i + 1\<close>, and so on. The code's weight is \<open>float_weight\<close>, the quotient
  \<^verbatim>\<open>1.0f / nIters\<close> in single precision.

  Modelled from the spec: \<open>exact_mix\<close> is the \<open>lerp\<close> of the spec's
  \<open>image[p] \<leftarrow> lerp(image[p], color, 1/i)\<close>, which glm documents for \<^verbatim>\<open>mix(x, y, a)\<close> as
  \<^verbatim>\<open>x * (1 - a) + y * a\<close>, in exact arithmetic. \<open>float_mix\<close> is that expression with the result
  of each operation rounded to single precision, and \<open>float_mix_alt\<close> the expression
  \<^verbatim>\<open>x + a * (y - x)\<close>, equal to it in exact arithmetic, rounded in the same way.
\<close>

fun running_blend ::
  "(vec3 \<Rightarrow> vec3 \<Rightarrow> real \<Rightarrow> vec3) \<Rightarrow> (int \<Rightarrow> real) \<Rightarrow> int \<Rightarrow> vec3 \<Rightarrow> vec3 list \<Rightarrow> vec3" where
  "running_blend blend weight i m [] = m"
| "running_blend blend weight i m (c # cs) =
     running_blend blend weight (i + 1) (blend m c (weight i)) cs"

definition float_weight :: "int \<Rightarrow> real" where
  "float_weight i = binary32 (1 / binary32 (real_of_int i))"

definition exact_mix :: "vec3 \<Rightarrow> vec3 \<Rightarrow> real \<Rightarrow> vec3" where
  "exact_mix a b s = vadd (vscale a (1 - s)) (vscale b s)"

definition float_mix :: "vec3 \<Rightarrow> vec3 \<Rightarrow> real \<Rightarrow> vec3" where
  "float_mix a b s =
     Vec3 (binary32 (binary32 (vx a * binary32 (1 - s)) + binary32 (vx b * s)))
          (binary32 (binary32 (vy a * binary32 (1 - s)) + binary32 (vy b * s)))
          (binary32 (binary32 (vz a * binary32 (1 - s)) + binary32 (vz b * s)))"

definition float_mix_alt :: "vec3 \<Rightarrow> vec3 \<Rightarrow> real \<Rightarrow> vec3" where
  "float_mix_alt a b s =
     Vec3 (binary32 (vx a + binary32 (s * binary32 (vx b - vx a))))
          (binary32 (vy a + binary32 (s * binary32 (vy b - vy a))))
          (binary32 (vz a + binary32 (s * binary32 (vz b - vz a))))"

definition one_path_per_pixel :: "nat \<Rightarrow> PathSegment list \<Rightarrow> bool" where
  \<comment> \<open>the pool holds exactly one path for each of the \<open>n\<close> pixels\<close>
  "one_path_per_pixel n pool =
     (distinct (map pixelIndex pool) \<and> set (map pixelIndex pool) = int ` {0..<n})"

section \<open>Example data\<close>

text \<open>
  Modelled from the spec: the body of \<^verbatim>\<open>utilhash\<close>, which is in \<^verbatim>\<open>intersections.h\<close> and not
  among the sources. The spec asks for "a fixed non-cryptographic integer hash"; the
  general statements below hold for every hash, and the closed examples use this
  instance, the six-round add, xor and shift mix of a 32-bit integer.
\<close>

definition utilhash_instance :: "32 word \<Rightarrow> 32 word" where
  "utilhash_instance a0 =
     (let a = (a0 + 0x7ed55d16) + push_bit 12 a0;
          a = (a XOR 0xc761c23c) XOR drop_bit 19 a;
          a = (a + 0x165667b1) + push_bit 5 a;
          a = (a + 0xd3a2646c) XOR push_bit 9 a;
          a = (a + 0xfd7046c5) + push_bit 3 a;
          a = (a XOR 0xb55a4f09) XOR drop_bit 16 a
      in a)"

text \<open>
  Example values for the parameters, used only in the closed examples: a generator whose
  output is read off its seed and draw count, a box intersector that reports a hit at
  \<open>t = 1\<close>, sphere and mesh intersectors that miss, a \<^verbatim>\<open>sample_f\<close> that bounces
  diffusely in a direction made of two draws, and the blend \<open>float_mix\<close>.
\<close>

definition example_uniform01 :: "32 word \<Rightarrow> nat \<Rightarrow> real" where
  "example_uniform01 s k = real (unat (s + word_of_nat k)) / 4294967296"

definition example_sample_f ::
  "PathSegment \<Rightarrow> vec3 \<Rightarrow> vec3 \<Rightarrow> Material \<Rightarrow> rng \<Rightarrow> PathSegment" where
  "example_sample_f path p n mat g =
     (let (a, g) = u01 example_uniform01 g; (b, g) = u01 example_uniform01 g
      in path\<lparr>ray := \<lparr>origin = p, direction = Vec3 a b 0\<rparr>,
              accum_throughput := vmul (accum_throughput path) (Material.color mat),
              remainingBounces := remainingBounces path - 1\<rparr>)"

definition example_fns :: "(unit, unit, unit) device_fns" where
  "example_fns =
     \<lparr>utilhash = utilhash_instance,
      uniform01 = example_uniform01,
      boxIntersectionTest = (\<lambda>g r. (1, vadd (origin r) (direction r), Vec3 0 1 0, True)),
      sphereIntersectionTest = (\<lambda>g r. (- 1, Vec3 0 0 0, Vec3 0 0 0, True)),
      geomIntersectionTest = (\<lambda>g r ts ns. (- 1, Vec3 0 0 0, Vec3 0 0 0)),
      getPointOnRay = (\<lambda>r t. vadd (origin r) (vscale (direction r) t)),
      sample_f = example_sample_f,
      glm_mix = float_mix\<rparr>"

definition example_light :: Material where
  \<comment> \<open>\<^verbatim>\<open>MATERIAL 0\<close> of the scene file: the emissive white\<close>
  "example_light = \<lparr>Material.color = Vec3 1 1 1, specular_exponent = 0,
     specular_color = Vec3 0 0 0, hasReflective = False, hasRefractive = False,
     indexOfRefraction = 0, emittance = 3\<rparr>"

definition example_red :: Material where
  \<comment> \<open>\<^verbatim>\<open>MATERIAL 2\<close> of the scene file: the diffuse red\<close>
  "example_red = \<lparr>Material.color = Vec3 0.85 0.35 0.35, specular_exponent = 0,
     specular_color = Vec3 0 0 0, hasReflective = False, hasRefractive = False,
     indexOfRefraction = 0, emittance = 0\<rparr>"

definition example_segment :: "int \<Rightarrow> int \<Rightarrow> PathSegment" where
  \<comment> \<open>a path of pixel \<open>p\<close> with \<open>b\<close> bounces left, looking down the negative z axis\<close>
  "example_segment p b =
     \<lparr>ray = \<lparr>origin = Vec3 0 5 9.5, direction = Vec3 0 0 (- 1)\<rparr>, color = Vec3 0 0 0,
      accum_throughput = Vec3 1 1 1, pixelIndex = p, remainingBounces = b\<rparr>"

definition example_hit :: "int \<Rightarrow> Intersection" where
  \<comment> \<open>a hit at \<open>t = 1\<close> on material \<open>m\<close>\<close>
  "example_hit m = \<lparr>isect_t = 1, surfaceNormal = Vec3 0 1 0, materialId = m\<rparr>"

definition example_camera :: "int \<times> int \<Rightarrow> real \<Rightarrow> Camera" where
  \<comment> \<open>the camera of the scene file at a given resolution and aperture\<close>
  "example_camera res a =
     \<lparr>resolution = res, position = Vec3 0 5 9.5, view = Vec3 0 0 (- 1), up = Vec3 0 1 0,
      right = Vec3 1 0 0, pixelLength = (0.001, 0.001), apertureSize = a, focalLength = 4\<rparr>"

definition example_cube :: "int \<Rightarrow> Geom" where
  "example_cube m = \<lparr>geom_type = CUBE, materialid = m\<rparr>"

definition example_sphere :: "int \<Rightarrow> Geom" where
  "example_sphere m = \<lparr>geom_type = SPHERE, materialid = m\<rparr>"

definition example_scene :: "int \<Rightarrow> (unit, unit, unit) Scene" where
  \<comment> \<open>one pixel looking at one cube that is a light, traced to depth \<open>D\<close>\<close>
  "example_scene D =
     \<lparr>camera = example_camera (1, 1) 0, traceDepth = D, geoms = [example_cube 0], tris = [],
      bvhNodes = [], materials = [example_light]\<rparr>"

definition example_device :: device_state where
  "example_device =
     \<lparr>dev_image = [Vec3 0 0 0], dev_paths = [example_segment 0 0],
      dev_intersections = [zero_Intersection], dev_cached_intersections = [],
      pbo_buf = [\<lparr>px = 0, py = 0, pz = 0, pw = 0\<rparr>], host_image = [Vec3 0 0 0],
      guiTracedDepth = Some 0, shade_launches = []\<rparr>"

section \<open>Properties\<close>

subsection \<open>Launches\<close>

text \<open>
  The threads of a launch whose index lies outside the guard of the kernel do nothing, so
  a launch is the fold of the thread function over the indices inside the guard.
\<close>

lemma fold_idle:
  "(\<And>k s. k \<in> set ks \<Longrightarrow> f k s = s) \<Longrightarrow> fold f ks s = s"
  by (induction ks arbitrary: s) simp_all

lemma launch1d_active:
  assumes idle: "\<And>k s. \<not> int k < n \<Longrightarrow> thread k s = s"
  shows "launch1d n thread s = fold thread [0..<nat n] s"
proof -
  let ?m = "128 * nat ((n + 128 - 1) div 128)"
  have le: "nat n \<le> ?m" by (cases "0 \<le> n") auto
  then have "[0..<?m] = [0..<nat n] @ [nat n..<?m]"
    using upt_add_eq_append [of 0 "nat n" "?m - nat n"] by simp
  moreover have "fold thread [nat n..<?m] s' = s'" for s'
    by (rule fold_idle) (use idle in auto)
  ultimately show ?thesis
    by (simp add: launch1d_def)
qed

lemma fold_filter_idle:
  "(\<And>x s. x \<in> set xs \<Longrightarrow> \<not> P x \<Longrightarrow> f x s = s) \<Longrightarrow> fold f xs s = fold f (filter P xs) s"
  by (induction xs arbitrary: s) simp_all

lemma filter_product:
  "filter (\<lambda>xy. A (fst xy) \<and> B (snd xy)) (List.product xs ys) =
     List.product (filter A xs) (filter B ys)"
  by (induction xs) (simp_all add: filter_map comp_def)

lemma filter_upt_below:
  "nat w \<le> g \<Longrightarrow> filter (\<lambda>k. int k < w) [0..<g] = [0..<nat w]"
proof (induction g)
  case 0
  then show ?case by simp
next
  case (Suc g)
  show ?case
  proof (cases "nat w \<le> g")
    case True
    then have "\<not> int g < w" by linarith
    with Suc.IH [OF True] show ?thesis by simp
  next
    case False
    then have e: "nat w = Suc g" using Suc.prems by simp
    then have "\<forall>k\<in>set [0..<Suc g]. int k < w" by auto
    then have "filter (\<lambda>k. int k < w) [0..<Suc g] = [0..<Suc g]"
      by (simp only: filter_True)
    with e show ?thesis by simp
  qed
qed

lemma launch2d_active:
  assumes idle: "\<And>xy s. \<not> (int (fst xy) < fst res \<and> int (snd xy) < snd res) \<Longrightarrow> thread xy s = s"
  shows "launch2d res thread s = fold thread (List.product [0..<nat (fst res)] [0..<nat (snd res)]) s"
proof -
  let ?gx = "8 * nat ((fst res + 8 - 1) div 8)" and ?gy = "8 * nat ((snd res + 8 - 1) div 8)"
  have b: "nat w \<le> 8 * nat ((w + 8 - 1) div 8)" for w :: int
    by (cases "0 \<le> w") auto
  have fx: "filter (\<lambda>x. int x < fst res) [0..<?gx] = [0..<nat (fst res)]"
    and fy: "filter (\<lambda>y. int y < snd res) [0..<?gy] = [0..<nat (snd res)]"
    by (rule filter_upt_below, rule b)+
  have "filter (\<lambda>xy. int (fst xy) < fst res \<and> int (snd xy) < snd res)
        (List.product [0..<?gx] [0..<?gy]) =
      List.product (filter (\<lambda>x. int x < fst res) [0..<?gx])
        (filter (\<lambda>y. int y < snd res) [0..<?gy])"
    by (rule filter_product)
  then have "filter (\<lambda>xy. int (fst xy) < fst res \<and> int (snd xy) < snd res)
        (List.product [0..<?gx] [0..<?gy]) =
      List.product [0..<nat (fst res)] [0..<nat (snd res)]"
    by (simp only: fx fy)
  then show ?thesis
    using fold_filter_idle [of "List.product [0..<?gx] [0..<?gy]"
        "\<lambda>xy. int (fst xy) < fst res \<and> int (snd xy) < snd res" thread s] idle
    by (simp add: launch2d_def)
qed

lemma launch2d_one_pixel:
  assumes "\<And>xy s. \<not> (int (fst xy) < 1 \<and> int (snd xy) < 1) \<Longrightarrow> thread xy s = s"
  shows "launch2d (1, 1) thread s = thread (0, 0) s"
  using launch2d_active [of "(1, 1)" thread s] assms by simp

lemma launch1d_one_path:
  assumes "\<And>k s. \<not> int k < 1 \<Longrightarrow> thread k s = s"
  shows "launch1d 1 thread s = thread 0 s"
  using launch1d_active [of 1 thread s] assms by simp

text \<open>
  Threads that each rewrite one slot of their own: after the launch a slot holds what its
  thread put there, computed from what the slot held before.
\<close>

lemma fold_scatter_other:
  assumes f: "\<And>k s. f k s = s[slot k := g k (s ! slot k)]"
  shows "\<forall>k\<in>set ks. slot k \<noteq> j \<Longrightarrow> fold f ks s ! j = s ! j"
  by (induction ks arbitrary: s) (simp_all add: f)

lemma fold_scatter_length:
  assumes f: "\<And>k s. f k s = s[slot k := g k (s ! slot k)]"
  shows "length (fold f ks s) = length s"
  by (induction ks arbitrary: s) (simp_all add: f)

lemma fold_scatter:
  assumes f: "\<And>k s. f k s = s[slot k := g k (s ! slot k)]"
  shows "distinct (map slot ks) \<Longrightarrow> k \<in> set ks \<Longrightarrow> slot k < length s \<Longrightarrow>
         fold f ks s ! slot k = g k (s ! slot k)"
proof (induction ks arbitrary: s)
  case Nil
  then show ?case by simp
next
  case (Cons k0 ks)
  show ?case
  proof (cases "k0 = k")
    case True
    have "\<forall>k'\<in>set ks. slot k' \<noteq> slot k"
      using Cons.prems(1) True by (auto simp: image_iff)
    then have "fold f ks (f k s) ! slot k = f k s ! slot k"
      by (rule fold_scatter_other [OF f])
    moreover have "f k s ! slot k = g k (s ! slot k)"
      using Cons.prems(3) by (simp add: f)
    ultimately show ?thesis
      using True by simp
  next
    case False
    then have mem: "k \<in> set ks" using Cons.prems(2) by simp
    then have ne: "slot k0 \<noteq> slot k" using Cons.prems(1) by (auto simp: image_iff)
    have len: "length (f k0 s) = length s" and same: "f k0 s ! slot k = s ! slot k"
      using ne by (simp_all add: f)
    have "fold f ks (f k0 s) ! slot k = g k (f k0 s ! slot k)"
      using Cons.prems mem len by (intro Cons.IH) simp_all
    then show ?thesis
      using same by simp
  qed
qed

lemma pixel_slot_inj:
  fixes W :: int
  assumes "int x < W" and "int x' < W" and "int x + int y * W = int x' + int y' * W"
  shows "x = x' \<and> y = y'"
proof -
  have W: "0 < W" using assms(1) by linarith
  have "(int x + int y * W) mod W = int x" "(int x' + int y' * W) mod W = int x'"
    using assms(1,2) by simp_all
  then have x: "x = x'" using assms(3) by simp
  then have "int y * W = int y' * W" using assms(3) by simp
  then have "y = y'" using W by simp
  with x show ?thesis by simp
qed

lemma launch2d_pixel:
  assumes thread: "\<And>x y s. int x < fst res \<Longrightarrow> int y < snd res \<Longrightarrow>
      thread (x, y) s =
        s[nat (int x + int y * fst res) := g x y (s ! nat (int x + int y * fst res))]"
    and idle: "\<And>xy s. \<not> (int (fst xy) < fst res \<and> int (snd xy) < snd res) \<Longrightarrow> thread xy s = s"
    and x: "int x < fst res" and y: "int y < snd res"
    and len: "nat (int x + int y * fst res) < length s"
  shows "launch2d res thread s ! nat (int x + int y * fst res) =
           g x y (s ! nat (int x + int y * fst res))"
proof -
  let ?slot = "\<lambda>xy. nat (int (fst xy) + int (snd xy) * fst res)"
  let ?g = "\<lambda>xy. g (fst xy) (snd xy)"
  let ?f = "\<lambda>xy s. s[?slot xy := ?g xy (s ! ?slot xy)]"
  let ?ks = "List.product [0..<nat (fst res)] [0..<nat (snd res)]"
  have same: "fold thread ?ks s = fold ?f ?ks s"
    by (rule fold_cong) (auto simp: thread fun_eq_iff)
  have "inj_on ?slot (set ?ks)"
  proof (rule inj_onI)
    fix a b assume a: "a \<in> set ?ks" and b: "b \<in> set ?ks" and e: "?slot a = ?slot b"
    have "int (fst a) < fst res" "int (fst b) < fst res"
      using a b by auto
    moreover have "int (fst a) + int (snd a) * fst res = int (fst b) + int (snd b) * fst res"
    proof -
      have "0 \<le> int (fst a) + int (snd a) * fst res" "0 \<le> int (fst b) + int (snd b) * fst res"
        using \<open>int (fst a) < fst res\<close> by (simp_all add: add_nonneg_nonneg)
      with e show ?thesis by linarith
    qed
    ultimately have "fst a = fst b \<and> snd a = snd b"
      by (rule pixel_slot_inj)
    then show "a = b" by (simp add: prod_eq_iff)
  qed
  then have dist: "distinct (map ?slot ?ks)"
    by (simp add: distinct_map distinct_product)
  have mem: "(x, y) \<in> set ?ks"
    using x y by auto
  have "fold ?f ?ks s ! ?slot (x, y) = ?g (x, y) (s ! ?slot (x, y))"
    by (rule fold_scatter [where f = ?f and slot = ?slot and g = ?g, OF _ dist mem])
       (use len in simp_all)
  then show ?thesis
    using launch2d_active [of res thread s] idle by (simp add: same)
qed

lemma generate_pixel:
  assumes "int x < fst (resolution cam)" and "int y < snd (resolution cam)"
    and "nat (int x + int y * fst (resolution cam)) < length pathSegments"
  shows "launch2d (resolution cam) (generateRayFromCamera cfg fns cam iter D) pathSegments
           ! nat (int x + int y * fst (resolution cam)) =
         camera_segment cfg fns cam iter D x y
           (pathSegments ! nat (int x + int y * fst (resolution cam)))"
  by (rule launch2d_pixel [where g = "camera_segment cfg fns cam iter D", OF _ _ assms])
     (auto simp: generateRayFromCamera_def Let_def)

lemma present_pixel:
  assumes "int x < fst res" and "int y < snd res"
    and "nat (int x + int y * fst res) < length pbo"
  shows "launch2d res (sendImageToPBO cfg res iter img) pbo ! nat (int x + int y * fst res) =
         (pbo ! nat (int x + int y * fst res))
           \<lparr>pw := 0,
            px := word_of_int (quantise (vx (display_pixel cfg (img ! nat (int x + int y * fst res))))),
            py := word_of_int (quantise (vy (display_pixel cfg (img ! nat (int x + int y * fst res))))),
            pz := word_of_int (quantise (vz (display_pixel cfg (img ! nat (int x + int y * fst res)))))\<rparr>"
  by (rule launch2d_pixel [where g = "\<lambda>x y old. old
           \<lparr>pw := 0,
            px := word_of_int (quantise (vx (display_pixel cfg (img ! nat (int x + int y * fst res))))),
            py := word_of_int (quantise (vy (display_pixel cfg (img ! nat (int x + int y * fst res))))),
            pz := word_of_int (quantise (vz (display_pixel cfg (img ! nat (int x + int y * fst res)))))\<rparr>",
        OF _ _ assms])
     (auto simp: sendImageToPBO_def Let_def)

lemma example_generate:
  "resolution cam = (1, 1) \<Longrightarrow>
   launch2d (1, 1) (generateRayFromCamera cfg fns cam iter D) [p] =
     [camera_segment cfg fns cam iter D 0 0 p]"
  by (subst launch2d_one_pixel) (auto simp: generateRayFromCamera_def Let_def)

subsection \<open>Seeding\<close>

lemma draws_Engine: "draws out (Engine s k) n = map (out s) [k..<k + n]"
proof (induction n arbitrary: k)
  case 0
  show ?case by simp
next
  case (Suc n)
  have "draws out (Engine s k) (Suc n) = out s k # draws out (Engine s (Suc k)) n"
    by (simp add: u01_def)
  also have "\<dots> = out s k # map (out s) [Suc k..<Suc k + n]"
    by (simp only: Suc.IH)
  also have "\<dots> = map (out s) (k # [Suc k..<Suc k + n])"
    by simp
  also have "k # [Suc k..<Suc k + n] = [k..<k + Suc n]"
    using upt_conv_Cons [of k "k + Suc n"] by simp
  finally show ?case .
qed

text \<open>
  C7. For every iteration, index and depth the engine is seeded with
  \<open>hash ((depth << 22) | (1 << 31) | iteration) XOR hash index\<close>, a 32-bit value, and it
  has made no draw; the sequence of values drawn from it is the generator's output for
  that seed, so equal triples give equal sequences. The hash is any fixed function.
\<close>

theorem makeSeededRandomEngine_seed:
  "makeSeededRandomEngine hash iter index depth =
     Engine (hash (push_bit 22 (word_of_int depth) OR push_bit 31 1 OR word_of_int iter)
               XOR hash (word_of_int index)) 0
   \<and> draws out (makeSeededRandomEngine hash iter index depth) n =
     map (out (hash (push_bit 22 (word_of_int depth) OR push_bit 31 1 OR word_of_int iter)
                 XOR hash (word_of_int index))) [0..<n]"
proof -
  have e: "push_bit 31 1 OR push_bit 22 (word_of_int depth) OR word_of_int iter
        = push_bit 22 (word_of_int depth) OR push_bit 31 1 OR (word_of_int iter :: 32 word)"
    by (simp add: ac_simps)
  show ?thesis
    unfolding makeSeededRandomEngine_def seed_of_def e
    using draws_Engine [of out _ 0 n] by simp
qed

subsection \<open>Shading\<close>

lemma kernel_sample_f_length:
  "length (kernel_sample_f fns iter depth num_paths isects mats idx paths) = length paths"
  by (simp add: kernel_sample_f_def Let_def)

text \<open>
  C4. A thread of the shading kernel whose path is live (its \<open>remainingBounces\<close> is not 0)
  and whose intersection has \<open>t > 0\<close> on a material with positive emittance replaces the
  path by itself with \<open>color\<close> set to material colour times emittance times accumulated
  throughput, channel by channel, and \<open>remainingBounces\<close> set to 0. The ray, the
  throughput and the pixel index of the path and every other slot of the pool stay as
  they were.
\<close>

theorem emissive_terminal:
  assumes "int idx < num_paths" and "idx < length paths"
    and "remainingBounces (paths ! idx) \<noteq> 0"
    and "isect_t (isects ! idx) > 0"
    and "0 \<le> materialId (isects ! idx)" and "nat (materialId (isects ! idx)) < length mats"
    and "emittance (mats ! nat (materialId (isects ! idx))) > 0"
  shows "kernel_sample_f fns iter depth num_paths isects mats idx paths =
           paths[idx := (paths ! idx)
             \<lparr>color := Vec3
                 (vx (Material.color (mats ! nat (materialId (isects ! idx))))
                    * emittance (mats ! nat (materialId (isects ! idx)))
                    * vx (accum_throughput (paths ! idx)))
                 (vy (Material.color (mats ! nat (materialId (isects ! idx))))
                    * emittance (mats ! nat (materialId (isects ! idx)))
                    * vy (accum_throughput (paths ! idx)))
                 (vz (Material.color (mats ! nat (materialId (isects ! idx))))
                    * emittance (mats ! nat (materialId (isects ! idx)))
                    * vz (accum_throughput (paths ! idx))),
              remainingBounces := 0\<rparr>]"
  using assms by (simp add: kernel_sample_f_def Let_def vmul_def vscale_def)

theorem emissive_terminal_witness:
  "remainingBounces ([example_segment 0 8] ! 0) \<noteq> 0
   \<and> isect_t ([example_hit 0] ! 0) > 0
   \<and> emittance ([example_light] ! nat (materialId ([example_hit 0] ! 0))) > 0
   \<and> kernel_sample_f example_fns 1 1 1 [example_hit 0] [example_light] 0 [example_segment 0 8]
       = [(example_segment 0 8)\<lparr>color := Vec3 3 3 3, remainingBounces := 0\<rparr>]"
  using emissive_terminal [of 0 1 "[example_segment 0 8]" "[example_hit 0]" "[example_light]"
      example_fns 1 1]
  by (simp add: example_segment_def example_hit_def example_light_def)

lemma kernel_sample_f_keeps_dead:
  assumes "remainingBounces (paths ! j) = 0"
  shows "kernel_sample_f fns iter depth num_paths isects mats idx paths ! j = paths ! j"
proof (cases "idx = j")
  case True
  with assms show ?thesis by (simp add: kernel_sample_f_def Let_def)
next
  case False
  then show ?thesis by (simp add: kernel_sample_f_def Let_def)
qed

lemma fold_kernel_sample_f_keeps_dead:
  "remainingBounces (paths ! j) = 0 \<Longrightarrow>
   fold (kernel_sample_f fns iter depth num_paths isects mats) is paths ! j = paths ! j"
proof (induction "is" arbitrary: paths)
  case Nil
  show ?case by simp
next
  case (Cons i "is")
  let ?ps = "kernel_sample_f fns iter depth num_paths isects mats i paths"
  have keep: "?ps ! j = paths ! j"
    using Cons.prems by (rule kernel_sample_f_keeps_dead)
  then have "remainingBounces (?ps ! j) = 0"
    using Cons.prems by simp
  then have "fold (kernel_sample_f fns iter depth num_paths isects mats) is ?ps ! j = ?ps ! j"
    by (rule Cons.IH)
  with keep show ?case by simp
qed

lemma shade_keeps_dead:
  "remainingBounces (paths ! j) = 0 \<Longrightarrow> shade fns call paths ! j = paths ! j"
  by (cases call) (simp add: shade_def launch1d_def fold_kernel_sample_f_keeps_dead)

lemma fold_shade_keeps_dead:
  "remainingBounces (paths ! j) = 0 \<Longrightarrow> fold (shade fns) calls paths ! j = paths ! j"
proof (induction calls arbitrary: paths)
  case Nil
  show ?case by simp
next
  case (Cons c calls)
  have keep: "shade fns c paths ! j = paths ! j"
    using Cons.prems by (rule shade_keeps_dead)
  then have "remainingBounces (shade fns c paths ! j) = 0"
    using Cons.prems by simp
  then have "fold (shade fns) calls (shade fns c paths) ! j = shade fns c paths ! j"
    by (rule Cons.IH)
  with keep show ?case by simp
qed

text \<open>
  C8. A segment whose \<open>remainingBounces\<close> is 0 is left as it is by every thread of the
  shading kernel, and so by every launch and by every sequence of launches, whatever
  their arguments: the whole segment (ray, throughput, colour, pixel index and
  remaining bounces) in slot \<open>j\<close> after the launches is the segment that was there before.
\<close>

theorem terminated_segment_immutable:
  assumes "j < length paths" and "remainingBounces (paths ! j) = 0"
  shows "kernel_sample_f fns iter depth num_paths isects mats idx paths ! j = paths ! j
       \<and> fold (shade fns) calls paths ! j = paths ! j"
  using assms kernel_sample_f_keeps_dead fold_shade_keeps_dead by blast

theorem terminated_segment_immutable_witness:
  "remainingBounces ([example_segment 0 0, example_segment 1 8] ! 0) = 0
   \<and> fold (shade example_fns)
       [(1, 3, 2, [example_hit 0, example_hit 1], [example_light, example_red]),
        (1, 4, 2, [example_hit 1, example_hit 0], [example_light, example_red])]
       [example_segment 0 0, example_segment 1 8] ! 0 = example_segment 0 0"
  using terminated_segment_immutable [of 0 "[example_segment 0 0, example_segment 1 8]"
      example_fns 1 3 2 "[example_hit 0, example_hit 1]" "[example_light, example_red]" 0
      "[(1, 3, 2, [example_hit 0, example_hit 1], [example_light, example_red]),
        (1, 4, 2, [example_hit 1, example_hit 0], [example_light, example_red])]"]
  by (simp add: example_segment_def)

text \<open>
  C1, as the code has it. A thread of the shading kernel whose path is live and hit a
  surface that is not a light hands \<^verbatim>\<open>sample_f\<close> the engine seeded with
  \<open>hash ((1 << 31) | (depth << 22) | iter) XOR hash idx\<close>, where \<open>idx\<close> is the index of the
  thread, which is the slot the path sits in; the engine has made no draw, and the
  samples drawn from it are the generator's output for that seed. The seed is a function
  of the iteration, the slot and the depth: the pixel index of the path does not enter
  it.
\<close>

theorem shading_engine_slot:
  assumes "int idx < num_paths" and "idx < length paths"
    and "remainingBounces (paths ! idx) \<noteq> 0"
    and "isect_t (isects ! idx) > 0"
    and "\<not> emittance (mats ! nat (materialId (isects ! idx))) > 0"
  shows "kernel_sample_f fns iter depth num_paths isects mats idx paths ! idx =
           sample_f fns (paths ! idx)
             (getPointOnRay fns (ray (paths ! idx)) (isect_t (isects ! idx)))
             (surfaceNormal (isects ! idx)) (mats ! nat (materialId (isects ! idx)))
             (Engine (utilhash fns (push_bit 31 1 OR push_bit 22 (word_of_int depth) OR word_of_int iter)
                        XOR utilhash fns (word_of_int (int idx))) 0)
       \<and> draws (uniform01 fns)
             (Engine (utilhash fns (push_bit 31 1 OR push_bit 22 (word_of_int depth) OR word_of_int iter)
                        XOR utilhash fns (word_of_int (int idx))) 0) n =
           map (uniform01 fns
                  (utilhash fns (push_bit 31 1 OR push_bit 22 (word_of_int depth) OR word_of_int iter)
                     XOR utilhash fns (word_of_int (int idx)))) [0..<n]"
  using assms draws_Engine [of "uniform01 fns" _ 0 n]
  by (simp add: kernel_sample_f_def Let_def makeSeededRandomEngine_def seed_of_def)

theorem shading_engine_slot_witness:
  "remainingBounces ([example_segment 0 8] ! 0) \<noteq> 0
   \<and> isect_t ([example_hit 1] ! 0) > 0
   \<and> \<not> emittance ([example_light, example_red] ! nat (materialId ([example_hit 1] ! 0))) > 0
   \<and> kernel_sample_f example_fns 1 1 1 [example_hit 1] [example_light, example_red] 0
        [example_segment 0 8] ! 0 =
      example_sample_f (example_segment 0 8) (Vec3 0 5 8.5) (Vec3 0 1 0) example_red
        (Engine 1438770432 0)"
proof -
  have s: "utilhash example_fns (push_bit 31 1 OR push_bit 22 (word_of_int 1) OR word_of_int 1)
        XOR utilhash example_fns (word_of_int (int 0)) = 1438770432"
    by (simp add: example_fns_def utilhash_instance_def)
  show ?thesis
    using shading_engine_slot [of 0 1 "[example_segment 0 8]" "[example_hit 1]"
        "[example_light, example_red]" example_fns 1 1 0]
    unfolding s
    by (simp add: example_segment_def example_hit_def example_light_def example_red_def
        example_fns_def vadd_def vscale_def)
qed

text \<open>
  C1, as stated, fails: the same path of pixel 0, with the same intersection, in the same
  iteration and at the same depth, is shaded differently in slot 0 of one pool and in
  slot 1 of another (where a sort or a compaction may have moved it), because the two
  engines have different seeds.
\<close>

theorem shading_engine_slot_counterexample:
  "pixelIndex ([example_segment 0 8] ! 0) = pixelIndex ([example_segment 5 8, example_segment 0 8] ! 1)
   \<and> [example_segment 0 8] ! 0 = [example_segment 5 8, example_segment 0 8] ! 1
   \<and> [example_hit 1] ! 0 = [example_hit 1, example_hit 1] ! 1
   \<and> kernel_sample_f example_fns 1 1 1 [example_hit 1] [example_light, example_red] 0
        [example_segment 0 8] ! 0
     \<noteq> kernel_sample_f example_fns 1 1 2 [example_hit 1, example_hit 1]
        [example_light, example_red] 1 [example_segment 5 8, example_segment 0 8] ! 1"
  by (simp add: kernel_sample_f_def Let_def example_fns_def example_segment_def example_hit_def
      example_light_def example_red_def example_sample_f_def u01_def example_uniform01_def
      makeSeededRandomEngine_def seed_of_def utilhash_instance_def)

subsection \<open>Camera rays\<close>

lemma camera_sample_fields:
  "accum_throughput (camera_sample cfg out cam x y g seg) = accum_throughput seg"
  "color (camera_sample cfg out cam x y g seg) = color seg"
  by (simp_all add: camera_sample_def Let_def split: prod.splits)

lemma camera_segment_fields:
  "accum_throughput (camera_segment cfg fns cam iter D x y seg) = Vec3 1 1 1"
  "color (camera_segment cfg fns cam iter D x y seg) = Vec3 0 0 0"
  "remainingBounces (camera_segment cfg fns cam iter D x y seg) = D"
  "pixelIndex (camera_segment cfg fns cam iter D x y seg) = int x + int y * fst (resolution cam)"
  by (simp_all add: camera_segment_def Let_def camera_sample_fields)

lemma camera_sample_origin:
  "origin (ray (camera_sample cfg out cam x y (Engine s 0) seg)) =
     (if apertureSize cam > 0 then
        cameraToWorld
          (vscale
             (squareToDiskConcentric
                (if ARGS_RIGHT_TO_LEFT cfg
                 then (out s (Suc (lens_draw_offset cfg)), out s (lens_draw_offset cfg))
                 else (out s (lens_draw_offset cfg), out s (Suc (lens_draw_offset cfg)))))
             (apertureSize cam))
          cam
      else origin (ray seg))"
  by (simp add: camera_sample_def lens_args_def Let_def u01_def lens_draw_offset_def
      eval_nat_numeral split: prod.splits)

lemma camera_segment_origin:
  "origin (ray (camera_segment cfg fns cam iter D x y seg)) =
     (if apertureSize cam > 0 then
        cameraToWorld
          (vscale
             (squareToDiskConcentric
                (if ARGS_RIGHT_TO_LEFT cfg
                 then (uniform01 fns
                         (seed_of (utilhash fns) iter (int x + int y * fst (resolution cam)) D)
                         (Suc (lens_draw_offset cfg)),
                       uniform01 fns
                         (seed_of (utilhash fns) iter (int x + int y * fst (resolution cam)) D)
                         (lens_draw_offset cfg))
                 else (uniform01 fns
                         (seed_of (utilhash fns) iter (int x + int y * fst (resolution cam)) D)
                         (lens_draw_offset cfg),
                       uniform01 fns
                         (seed_of (utilhash fns) iter (int x + int y * fst (resolution cam)) D)
                         (Suc (lens_draw_offset cfg)))))
             (apertureSize cam))
          cam
      else position cam)"
  by (simp add: camera_segment_def Let_def makeSeededRandomEngine_def camera_sample_origin)

text \<open>
  C5, as the code has it. After the launch of \<^verbatim>\<open>generateRayFromCamera\<close>, the segment in slot
  \<open>x + y * W\<close> of the pool, for every pixel \<open>(x, y)\<close> of the image, has throughput
  \<open>(1, 1, 1)\<close>, colour \<open>(0, 0, 0)\<close>, \<open>remainingBounces\<close> equal to the trace depth and
  \<open>pixelIndex\<close> equal to \<open>x + y * W\<close>. Its origin is the camera position when the
  aperture is not positive, and otherwise the lens point: the concentric-disk sample of
  the next two draws of the pixel's engine, scaled by the aperture and taken from camera
  space to world space. The two draws are the arguments of \<^verbatim>\<open>glm::vec2\<close>; the earlier draw
  is the second coordinate when the compiler evaluates the arguments right to left, and
  the first coordinate otherwise.
\<close>

theorem camera_ray_initial:
  assumes "int x < fst (resolution cam)" and "int y < snd (resolution cam)"
    and "nat (int x + int y * fst (resolution cam)) < length pathSegments"
  shows "accum_throughput (launch2d (resolution cam) (generateRayFromCamera cfg fns cam iter D)
            pathSegments ! nat (int x + int y * fst (resolution cam))) = Vec3 1 1 1
       \<and> color (launch2d (resolution cam) (generateRayFromCamera cfg fns cam iter D)
            pathSegments ! nat (int x + int y * fst (resolution cam))) = Vec3 0 0 0
       \<and> remainingBounces (launch2d (resolution cam) (generateRayFromCamera cfg fns cam iter D)
            pathSegments ! nat (int x + int y * fst (resolution cam))) = D
       \<and> pixelIndex (launch2d (resolution cam) (generateRayFromCamera cfg fns cam iter D)
            pathSegments ! nat (int x + int y * fst (resolution cam))) =
           int x + int y * fst (resolution cam)
       \<and> origin (ray (launch2d (resolution cam) (generateRayFromCamera cfg fns cam iter D)
            pathSegments ! nat (int x + int y * fst (resolution cam)))) =
           (if apertureSize cam > 0 then
              cameraToWorld
                (vscale
                   (squareToDiskConcentric
                      (if ARGS_RIGHT_TO_LEFT cfg
                       then (uniform01 fns
                               (seed_of (utilhash fns) iter (int x + int y * fst (resolution cam)) D)
                               (Suc (lens_draw_offset cfg)),
                             uniform01 fns
                               (seed_of (utilhash fns) iter (int x + int y * fst (resolution cam)) D)
                               (lens_draw_offset cfg))
                       else (uniform01 fns
                               (seed_of (utilhash fns) iter (int x + int y * fst (resolution cam)) D)
                               (lens_draw_offset cfg),
                             uniform01 fns
                               (seed_of (utilhash fns) iter (int x + int y * fst (resolution cam)) D)
                               (Suc (lens_draw_offset cfg)))))
                   (apertureSize cam))
                cam
            else position cam)"
  by (simp add: generate_pixel [OF assms] camera_segment_fields camera_segment_origin)

text \<open>
  An instance with the aperture \<open>0.15\<close> of the scene file and a generator whose draws are
  \<open>1/2, 1/2, 3/4, 1/2\<close>: the two jitter draws, then the two lens draws. Right to left the
  lens sample is that of \<open>(1/2, 3/4)\<close>, which lies on the disk's vertical axis; left to right
  it is that of \<open>(3/4, 1/2)\<close>, the point \<open>(1/2, 0)\<close> of the disk.
\<close>

theorem camera_ray_initial_witness:
  "int 0 < fst (resolution (example_camera (1, 1) 0.15))
   \<and> nat (int 0 + int 0 * fst (resolution (example_camera (1, 1) 0.15))) < length [example_segment 7 0]
   \<and> accum_throughput (launch2d (1, 1)
        (generateRayFromCamera as_built (example_fns\<lparr>uniform01 := \<lambda>s k. if k = 2 then 3 / 4 else 1 / 2\<rparr>)
           (example_camera (1, 1) 0.15) 1 8)
        [example_segment 7 0] ! 0) = Vec3 1 1 1
   \<and> color (launch2d (1, 1)
        (generateRayFromCamera as_built (example_fns\<lparr>uniform01 := \<lambda>s k. if k = 2 then 3 / 4 else 1 / 2\<rparr>)
           (example_camera (1, 1) 0.15) 1 8)
        [example_segment 7 0] ! 0) = Vec3 0 0 0
   \<and> remainingBounces (launch2d (1, 1)
        (generateRayFromCamera as_built (example_fns\<lparr>uniform01 := \<lambda>s k. if k = 2 then 3 / 4 else 1 / 2\<rparr>)
           (example_camera (1, 1) 0.15) 1 8)
        [example_segment 7 0] ! 0) = 8
   \<and> pixelIndex (launch2d (1, 1)
        (generateRayFromCamera as_built (example_fns\<lparr>uniform01 := \<lambda>s k. if k = 2 then 3 / 4 else 1 / 2\<rparr>)
           (example_camera (1, 1) 0.15) 1 8)
        [example_segment 7 0] ! 0) = 0
   \<and> origin (ray (launch2d (1, 1)
        (generateRayFromCamera as_built (example_fns\<lparr>uniform01 := \<lambda>s k. if k = 2 then 3 / 4 else 1 / 2\<rparr>)
           (example_camera (1, 1) 0.15) 1 8)
        [example_segment 7 0] ! 0)) =
      Vec3 (cos PI_OVER_2 * 0.075) (5 + sin PI_OVER_2 * 0.075) 9.5
   \<and> origin (ray (launch2d (1, 1)
        (generateRayFromCamera (as_built\<lparr>ARGS_RIGHT_TO_LEFT := False\<rparr>)
           (example_fns\<lparr>uniform01 := \<lambda>s k. if k = 2 then 3 / 4 else 1 / 2\<rparr>)
           (example_camera (1, 1) 0.15) 1 8)
        [example_segment 7 0] ! 0)) = Vec3 0.075 5 9.5
   \<and> origin (ray (launch2d (1, 1)
        (generateRayFromCamera as_built example_fns (example_camera (1, 1) 0) 1 8)
        [example_segment 7 0] ! 0)) = Vec3 0 5 9.5"
  using camera_ray_initial [of 0 "example_camera (1, 1) 0.15" 0 "[example_segment 7 0]" as_built
      "example_fns\<lparr>uniform01 := \<lambda>s k. if k = 2 then 3 / 4 else 1 / 2\<rparr>" 1 8]
    camera_ray_initial [of 0 "example_camera (1, 1) 0.15" 0 "[example_segment 7 0]"
      "as_built\<lparr>ARGS_RIGHT_TO_LEFT := False\<rparr>"
      "example_fns\<lparr>uniform01 := \<lambda>s k. if k = 2 then 3 / 4 else 1 / 2\<rparr>" 1 8]
    camera_ray_initial [of 0 "example_camera (1, 1) 0" 0 "[example_segment 7 0]" as_built
      example_fns 1 8]
  by (simp add: example_camera_def as_built_def lens_draw_offset_def squareToDiskConcentric_def
      cameraToWorld_def vscale_def vadd_def Let_def)

text \<open>
  C5, as stated, fails: with a negative aperture the origin is the camera position
  although the aperture is not 0.
\<close>

theorem camera_ray_pinhole_counterexample:
  "apertureSize (example_camera (1, 1) (- 1)) \<noteq> 0
   \<and> origin (ray (launch2d (1, 1)
        (generateRayFromCamera as_built example_fns (example_camera (1, 1) (- 1)) 1 8)
        [example_segment 7 0] ! 0)) = position (example_camera (1, 1) (- 1))"
proof -
  have "resolution (example_camera (1, 1) (- 1)) = (1, 1)"
    by (simp add: example_camera_def)
  then have "launch2d (1, 1)
        (generateRayFromCamera as_built example_fns (example_camera (1, 1) (- 1)) 1 8)
        [example_segment 7 0] =
      [camera_segment as_built example_fns (example_camera (1, 1) (- 1)) 1 8 0 0
         (example_segment 7 0)]"
    by (rule example_generate)
  then show ?thesis
    by (simp add: camera_segment_origin example_camera_def)
qed

subsection \<open>Scene dispatch\<close>

lemma geom_loop_body_effect:
  fixes fns r gs ts bs i s
  defines "d \<equiv> dispatch fns r ts bs (gs ! i)"
  shows "t_min (geom_loop_body fns r gs ts bs i s) =
           (if fst d > 0 \<and> t_min s > fst d then fst d else t_min s)
       \<and> hit_geom_index (geom_loop_body fns r gs ts bs i s) =
           (if fst d > 0 \<and> t_min s > fst d then int i else hit_geom_index s)
       \<and> normal (geom_loop_body fns r gs ts bs i s) =
           (if fst d > 0 \<and> t_min s > fst d then snd d else normal s)"
proof (cases "geom_type (gs ! i)")
  case CUBE
  obtain t p n out where b: "boxIntersectionTest fns (gs ! i) r = (t, p, n, out)"
    by (cases "boxIntersectionTest fns (gs ! i) r") auto
  show ?thesis
    by (simp add: d_def geom_loop_body_def dispatch_def CUBE b Let_def)
next
  case SPHERE
  obtain t p n out where b: "sphereIntersectionTest fns (gs ! i) r = (t, p, n, out)"
    by (cases "sphereIntersectionTest fns (gs ! i) r") auto
  show ?thesis
    by (simp add: d_def geom_loop_body_def dispatch_def SPHERE b Let_def)
next
  case GLTF_MESH
  obtain t p n where b: "geomIntersectionTest fns (gs ! i) r ts bs = (t, p, n)"
    by (cases "geomIntersectionTest fns (gs ! i) r ts bs") auto
  show ?thesis
    by (simp add: d_def geom_loop_body_def dispatch_def GLTF_MESH b Let_def)
qed

lemma geom_loop_Suc:
  "geom_loop fns r gs ts bs (Suc n) =
     geom_loop_body fns r gs ts bs n (geom_loop fns r gs ts bs n)"
  by (simp add: geom_loop_def)

lemma geom_loop_invariant:
  fixes fns r gs ts bs
  defines "tt \<equiv> \<lambda>j. fst (dispatch fns r ts bs (gs ! j))"
    and "nn \<equiv> \<lambda>j. snd (dispatch fns r ts bs (gs ! j))"
  shows "(hit_geom_index (geom_loop fns r gs ts bs n) = - 1
           \<and> t_min (geom_loop fns r gs ts bs n) = FLT_MAX
           \<and> (\<forall>j<n. \<not> (0 < tt j \<and> tt j < FLT_MAX)))
       \<or> (\<exists>k. nearest tt n k
           \<and> hit_geom_index (geom_loop fns r gs ts bs n) = int k
           \<and> t_min (geom_loop fns r gs ts bs n) = tt k
           \<and> normal (geom_loop fns r gs ts bs n) = nn k)"
proof (induction n)
  case 0
  show ?case by (simp add: geom_loop_def isect_locals_init_def)
next
  case (Suc n)
  let ?s = "geom_loop fns r gs ts bs n"
  let ?s' = "geom_loop fns r gs ts bs (Suc n)"
  have eff: "t_min ?s' = (if tt n > 0 \<and> t_min ?s > tt n then tt n else t_min ?s)"
    "hit_geom_index ?s' = (if tt n > 0 \<and> t_min ?s > tt n then int n else hit_geom_index ?s)"
    "normal ?s' = (if tt n > 0 \<and> t_min ?s > tt n then nn n else normal ?s)"
    using geom_loop_body_effect [of fns r gs ts bs n ?s]
    by (simp_all add: geom_loop_Suc tt_def nn_def)
  show ?case
  proof (cases "tt n > 0 \<and> t_min ?s > tt n")
    case True
    have bound: "tt n < FLT_MAX \<and> (\<forall>j<n. 0 < tt j \<longrightarrow> tt n < tt j)"
      using Suc.IH True unfolding nearest_def by (elim disjE exE conjE) force+
    have "nearest tt (Suc n) n"
      unfolding nearest_def using True bound by (auto simp: less_Suc_eq)
    then show ?thesis
      using True eff by auto
  next
    case False
    from Suc.IH show ?thesis
    proof (elim disjE exE conjE)
      assume a: "hit_geom_index ?s = - 1" "t_min ?s = FLT_MAX"
        "\<forall>j<n. \<not> (0 < tt j \<and> tt j < FLT_MAX)"
      then have "\<forall>j<Suc n. \<not> (0 < tt j \<and> tt j < FLT_MAX)"
        using False by (auto simp: less_Suc_eq)
      then show ?thesis
        using False eff a by auto
    next
      fix k
      assume a: "nearest tt n k" "hit_geom_index ?s = int k" "t_min ?s = tt k" "normal ?s = nn k"
      then have "nearest tt (Suc n) k"
        using False unfolding nearest_def by (auto simp: less_Suc_eq)
      then show ?thesis
        using False eff a by auto
    qed
  qed
qed

text \<open>
  C3, as the code has it. For the path in slot \<open>path_index\<close> and the list of instances, with
  \<open>t j\<close> and \<open>n j\<close> the distance and the normal that the intersector of instance \<open>j\<close>
  returns: when some instance has \<open>0 < t j < FLT_MAX\<close>, the thread writes
  \<open>(t k, n k, materialid of instance k)\<close> to the intersection slot, where \<open>k\<close> is the
  instance with the smallest positive \<open>t\<close> and, among equal ones, the lowest index;
  otherwise it writes \<open>t = -1\<close> and leaves the rest of the slot as it was.
\<close>

theorem computeIntersections_nearest:
  fixes fns ps gs ts bs path_index
  defines "tt \<equiv> \<lambda>j. fst (dispatch fns (ray (ps ! path_index)) ts bs (gs ! j))"
    and "nn \<equiv> \<lambda>j. snd (dispatch fns (ray (ps ! path_index)) ts bs (gs ! j))"
  assumes "int path_index < num_paths" and "path_index < length isects"
    and "geoms_size = int (length gs)"
  shows "if \<exists>j<length gs. 0 < tt j \<and> tt j < FLT_MAX
         then \<exists>k. nearest tt (length gs) k
                \<and> computeIntersections fns depth num_paths ps gs geoms_size ts tri_size bs
                      bvh_size path_index isects ! path_index =
                    (isects ! path_index)
                      \<lparr>isect_t := tt k, materialId := materialid (gs ! k), surfaceNormal := nn k\<rparr>
         else computeIntersections fns depth num_paths ps gs geoms_size ts tri_size bs
                bvh_size path_index isects ! path_index =
              (isects ! path_index)\<lparr>isect_t := - 1\<rparr>"
proof -
  let ?s = "geom_loop fns (ray (ps ! path_index)) gs ts bs (length gs)"
  have res: "computeIntersections fns depth num_paths ps gs geoms_size ts tri_size bs
                bvh_size path_index isects ! path_index =
             (if hit_geom_index ?s = - 1 then (isects ! path_index)\<lparr>isect_t := - 1\<rparr>
              else (isects ! path_index)
                     \<lparr>isect_t := t_min ?s,
                      materialId := materialid (gs ! nat (hit_geom_index ?s)),
                      surfaceNormal := normal ?s\<rparr>)"
    using assms(3,4,5) by (simp add: computeIntersections_def Let_def)
  from geom_loop_invariant [of fns "ray (ps ! path_index)" gs ts bs "length gs"]
  consider
    (miss) "hit_geom_index ?s = - 1" "\<forall>j<length gs. \<not> (0 < tt j \<and> tt j < FLT_MAX)"
  | (hit) k where "nearest tt (length gs) k" "hit_geom_index ?s = int k" "t_min ?s = tt k"
      "normal ?s = nn k"
    unfolding tt_def nn_def by blast
  then show ?thesis
  proof cases
    case miss
    from miss(2) have "\<not> (\<exists>j<length gs. 0 < tt j \<and> tt j < FLT_MAX)"
      by blast
    moreover have "computeIntersections fns depth num_paths ps gs geoms_size ts tri_size bs
                bvh_size path_index isects ! path_index = (isects ! path_index)\<lparr>isect_t := - 1\<rparr>"
      using res miss(1) by simp
    ultimately show ?thesis by (simp only: if_False)
  next
    case hit
    have ex: "\<exists>j<length gs. 0 < tt j \<and> tt j < FLT_MAX"
      using hit(1) unfolding nearest_def by blast
    have "computeIntersections fns depth num_paths ps gs geoms_size ts tri_size bs
                bvh_size path_index isects ! path_index =
          (isects ! path_index)
            \<lparr>isect_t := tt k, materialId := materialid (gs ! k), surfaceNormal := nn k\<rparr>"
      using res hit by simp
    with hit(1) ex show ?thesis by auto
  qed
qed

lemma example_dispatch:
  "dispatch example_fns r ts bs (example_cube m) = (1, Vec3 0 1 0)"
  "dispatch example_fns r ts bs (example_sphere m) = (- 1, Vec3 0 0 0)"
  by (simp_all add: dispatch_def example_fns_def example_cube_def example_sphere_def)

lemma example_materialid:
  "materialid (example_cube m) = m" "materialid (example_sphere m) = m"
  by (simp_all add: example_cube_def example_sphere_def)

theorem computeIntersections_nearest_witness:
  "int 0 < 1 \<and> 0 < length [zero_Intersection]
   \<and> computeIntersections example_fns 0 1 [example_segment 0 8]
        [example_sphere 2, example_cube 3, example_cube 1] 3 [] 0 [] 0 0 [zero_Intersection] ! 0 =
      \<lparr>isect_t = 1, surfaceNormal = Vec3 0 1 0, materialId = 3\<rparr>"
proof -
  let ?gs = "[example_sphere 2, example_cube 3, example_cube 1]"
  let ?tt = "\<lambda>j. fst (dispatch example_fns (ray ([example_segment 0 8] ! 0)) [] [] (?gs ! j))"
  let ?nn = "\<lambda>j. snd (dispatch example_fns (ray ([example_segment 0 8] ! 0)) [] [] (?gs ! j))"
  let ?res = "computeIntersections example_fns 0 1 [example_segment 0 8] ?gs 3 [] 0 [] 0 0
      [zero_Intersection] ! 0"
  have tts: "?tt 0 = - 1" "?tt 1 = 1" "?tt 2 = 1"
    by (simp_all add: example_dispatch)
  have ex: "\<exists>j<length ?gs. 0 < ?tt j \<and> ?tt j < FLT_MAX"
    by (rule exI [of _ 1]) (simp add: example_dispatch FLT_MAX_def)
  from computeIntersections_nearest [of 0 1 "[zero_Intersection]" 3 ?gs example_fns
      "[example_segment 0 8]" "[]" "[]" 0 0 0] ex
  obtain k where k: "nearest ?tt (length ?gs) k"
    and r: "?res = ([zero_Intersection] ! 0)
        \<lparr>isect_t := ?tt k, materialId := materialid (?gs ! k), surfaceNormal := ?nn k\<rparr>"
    by auto
  have k3: "k < 3" and kpos: "0 < ?tt k" and klow: "\<forall>j<k. 0 < ?tt j \<longrightarrow> ?tt k < ?tt j"
    using k unfolding nearest_def by simp_all
  have "k \<noteq> 0"
    using kpos tts(1) by (intro notI) simp
  moreover have "k \<noteq> 2"
  proof
    assume k2: "k = 2"
    then have "(1::nat) < k" by simp
    with klow have "0 < ?tt 1 \<longrightarrow> ?tt k < ?tt 1" by blast
    with tts k2 show False by simp
  qed
  ultimately have "k = 1"
    using k3 by arith
  with r have "?res = \<lparr>isect_t = 1, surfaceNormal = Vec3 0 1 0, materialId = 3\<rparr>"
    by (simp add: example_dispatch zero_Intersection_def example_materialid)
  then show ?thesis by simp
qed

text \<open>
  C3, as stated, fails: an instance whose intersector returns the positive distance
  \<open>FLT_MAX\<close> is not recorded, because the running minimum starts at \<open>FLT_MAX\<close> and the
  comparison is strict; the thread writes \<open>t = -1\<close>.
\<close>

theorem computeIntersections_nearest_counterexample:
  "0 < fst (dispatch
        (example_fns\<lparr>boxIntersectionTest := \<lambda>g r. (FLT_MAX, Vec3 0 0 0, Vec3 0 1 0, True)\<rparr>)
        (ray ([example_segment 0 8] ! 0)) [] [] ([example_cube 3] ! 0))
   \<and> isect_t (computeIntersections
        (example_fns\<lparr>boxIntersectionTest := \<lambda>g r. (FLT_MAX, Vec3 0 0 0, Vec3 0 1 0, True)\<rparr>)
        0 1 [example_segment 0 8] [example_cube 3] 1 [] 0 [] 0 0 [zero_Intersection] ! 0) = - 1"
  by (simp add: computeIntersections_def geom_loop_def geom_loop_body_def Let_def dispatch_def
      example_cube_def example_fns_def isect_locals_init_def FLT_MAX_def)

subsection \<open>Stream compaction\<close>

lemma kernel_sample_f_idle:
  "\<not> int k < n \<Longrightarrow> kernel_sample_f fns iter depth n isects mats k paths = paths"
  by (simp add: kernel_sample_f_def)

lemma kernel_sample_f_tail:
  "k < m \<Longrightarrow> drop m (kernel_sample_f fns iter depth n isects mats k paths) = drop m paths"
  by (simp add: kernel_sample_f_def Let_def drop_update_cancel)

lemma fold_kernel_sample_f_tail:
  "\<forall>k\<in>set ks. k < m \<Longrightarrow>
   drop m (fold (kernel_sample_f fns iter depth n isects mats) ks paths) = drop m paths"
  by (induction ks arbitrary: paths) (simp_all add: kernel_sample_f_tail)

lemma shading_keeps_tail:
  "drop (nat n) (launch1d n (kernel_sample_f fns iter depth n isects mats) paths) =
     drop (nat n) paths"
  using launch1d_active [of n "kernel_sample_f fns iter depth n isects mats" paths]
    fold_kernel_sample_f_tail [of "[0..<nat n]" "nat n" fns iter depth n isects mats paths]
  by (simp add: kernel_sample_f_idle)

lemma sorting_keeps_tail:
  assumes "nat n \<le> length isects" and "nat n \<le> length paths"
  shows "drop (nat n) (snd (sort_by_material n isects paths)) = drop (nat n) paths"
proof -
  let ?zs = "sort_key (\<lambda>kv. materialId (fst kv)) (zip (take (nat n) isects) (take (nat n) paths))"
  have "length (map snd ?zs) = nat n"
    using assms by simp
  then show ?thesis
    by (simp add: sort_by_material_def stable_sort_by_key_def Let_def)
qed

lemma filter_dead_all: "\<forall>p\<in>set xs. remainingBounces p = 0 \<Longrightarrow>
    filter (notEquals 0) xs = [] \<and> filter (\<lambda>p. \<not> notEquals 0 p) xs = xs"
  by (induction xs) (simp_all add: notEquals_def)

lemma stream_compact_whole:
  assumes "\<forall>p\<in>set (drop (nat num_paths) paths). remainingBounces p = 0"
  shows "stream_compact num_paths paths =
           (filter (notEquals 0) paths @ filter (\<lambda>p. \<not> notEquals 0 p) paths,
            int (length (filter (notEquals 0) paths)))"
proof -
  let ?n = "nat num_paths"
  have split: "paths = take ?n paths @ drop ?n paths" by simp
  have tail: "filter (notEquals 0) (drop ?n paths) = []"
    "filter (\<lambda>p. \<not> notEquals 0 p) (drop ?n paths) = drop ?n paths"
    using filter_dead_all [OF assms] by simp_all
  have live: "filter (notEquals 0) paths = filter (notEquals 0) (take ?n paths)"
    using tail(1) filter_append [of "notEquals 0" "take ?n paths" "drop ?n paths"] by simp
  have dead: "filter (\<lambda>p. \<not> notEquals 0 p) paths =
      filter (\<lambda>p. \<not> notEquals 0 p) (take ?n paths) @ drop ?n paths"
    using tail(2) filter_append [of "\<lambda>p. \<not> notEquals 0 p" "take ?n paths" "drop ?n paths"]
    by simp
  show ?thesis
    by (simp add: stream_compact_def stable_partition_def live dead)
qed

lemma partitioned_order:
  assumes "\<forall>p\<in>set as. P p" and "\<forall>p\<in>set bs. \<not> P p"
    and "i < length (as @ bs)" and "j < length (as @ bs)"
    and "P ((as @ bs) ! i)" and "\<not> P ((as @ bs) ! j)"
  shows "i < j"
proof -
  have "i < length as"
  proof (rule ccontr)
    assume "\<not> i < length as"
    then have "(as @ bs) ! i \<in> set bs"
      using assms(3) by (simp add: nth_append)
    with assms(2,5) show False by blast
  qed
  moreover have "\<not> j < length as"
  proof
    assume "j < length as"
    then have "(as @ bs) ! j \<in> set as"
      by (simp add: nth_append)
    with assms(1,6) show False by blast
  qed
  ultimately show ?thesis by simp
qed

text \<open>
  C6, as the code has it. Whenever the paths from \<open>num_paths\<close> on are terminated, the
  compaction leaves the pool stably partitioned by the predicate of
  \<^verbatim>\<open>notEquals(0)\<close>: every path with \<open>remainingBounces \<noteq> 0\<close> precedes every path with
  \<open>remainingBounces = 0\<close>, each group keeps its order and its segments (so the colours of
  the terminated paths are unchanged), and the new \<open>num_paths\<close> is the number of paths
  with \<open>remainingBounces \<noteq> 0\<close>. The hypothesis holds at every compaction of an
  iteration: the loop starts with \<open>num_paths\<close> the size of the pool, a compaction
  establishes it for the new \<open>num_paths\<close> (the last conjunct), and the sort and the shading
  of the next bounce leave the paths from \<open>num_paths\<close> on as they are
  (\<open>sorting_keeps_tail\<close>, \<open>shading_keeps_tail\<close>).
\<close>

theorem stream_compact_partition:
  assumes "\<forall>p\<in>set (drop (nat num_paths) paths). remainingBounces p = 0"
  shows "fst (stream_compact num_paths paths) =
           filter (\<lambda>p. remainingBounces p \<noteq> 0) paths @ filter (\<lambda>p. remainingBounces p = 0) paths
       \<and> snd (stream_compact num_paths paths) =
           int (length (filter (\<lambda>p. remainingBounces p \<noteq> 0) paths))
       \<and> (\<forall>i j. i < length paths \<and> j < length paths
             \<and> remainingBounces (fst (stream_compact num_paths paths) ! i) \<noteq> 0
             \<and> remainingBounces (fst (stream_compact num_paths paths) ! j) = 0 \<longrightarrow> i < j)
       \<and> filter (\<lambda>p. remainingBounces p \<noteq> 0) (fst (stream_compact num_paths paths)) =
           filter (\<lambda>p. remainingBounces p \<noteq> 0) paths
       \<and> filter (\<lambda>p. remainingBounces p = 0) (fst (stream_compact num_paths paths)) =
           filter (\<lambda>p. remainingBounces p = 0) paths
       \<and> map color (filter (\<lambda>p. remainingBounces p = 0) (fst (stream_compact num_paths paths))) =
           map color (filter (\<lambda>p. remainingBounces p = 0) paths)
       \<and> length (fst (stream_compact num_paths paths)) = length paths
       \<and> (\<forall>p\<in>set (drop (nat (snd (stream_compact num_paths paths)))
                        (fst (stream_compact num_paths paths))). remainingBounces p = 0)"
proof -
  let ?L = "filter (\<lambda>p. remainingBounces p \<noteq> 0) paths"
  let ?T = "filter (\<lambda>p. remainingBounces p = 0) paths"
  have ne: "notEquals 0 = (\<lambda>p. remainingBounces p \<noteq> 0)"
    by (rule ext) (simp add: notEquals_def)
  have whole: "stream_compact num_paths paths = (?L @ ?T, int (length ?L))"
    using stream_compact_whole [OF assms] by (simp add: ne)
  have len: "length (?L @ ?T) = length paths"
    using sum_length_filter_compl [of "\<lambda>p. remainingBounces p \<noteq> 0" paths] by simp
  have order: "\<forall>i j. i < length paths \<and> j < length paths
        \<and> remainingBounces ((?L @ ?T) ! i) \<noteq> 0 \<and> remainingBounces ((?L @ ?T) ! j) = 0 \<longrightarrow> i < j"
  proof (intro allI impI)
    fix i j
    assume h: "i < length paths \<and> j < length paths
        \<and> remainingBounces ((?L @ ?T) ! i) \<noteq> 0 \<and> remainingBounces ((?L @ ?T) ! j) = 0"
    show "i < j"
      by (rule partitioned_order [of ?L "\<lambda>p. remainingBounces p \<noteq> 0" ?T]) (use h len in simp_all)
  qed
  have fl: "filter (\<lambda>p. remainingBounces p \<noteq> 0) (?L @ ?T) = ?L"
    and ft: "filter (\<lambda>p. remainingBounces p = 0) (?L @ ?T) = ?T"
    by simp_all
  have tail: "\<forall>p\<in>set (drop (length ?L) (?L @ ?T)). remainingBounces p = 0"
    by simp
  have tail': "\<forall>p\<in>set (drop (nat (int (length ?L))) (?L @ ?T)). remainingBounces p = 0"
    by simp
  have col: "map color (filter (\<lambda>p. remainingBounces p = 0) (?L @ ?T)) = map color ?T"
    using ft by (rule arg_cong)
  show ?thesis
    apply (simp only: whole fst_conv snd_conv)
    apply (intro conjI)
           apply (rule refl)
          apply (rule refl)
         apply (rule order)
        apply (rule fl)
       apply (rule ft)
      apply (rule col)
     apply (rule len)
    apply (rule tail')
    done
qed

theorem stream_compact_partition_witness:
  "list_all (\<lambda>p. remainingBounces p = 0)
     (drop (nat 3) [example_segment 0 0, example_segment 1 5, example_segment 2 0,
        example_segment 3 0])
   \<and> fst (stream_compact 3 [example_segment 0 0, example_segment 1 5, example_segment 2 0,
        example_segment 3 0]) =
      [example_segment 1 5, example_segment 0 0, example_segment 2 0, example_segment 3 0]
   \<and> snd (stream_compact 3 [example_segment 0 0, example_segment 1 5, example_segment 2 0,
        example_segment 3 0]) = 1"
proof -
  let ?pool = "[example_segment 0 0, example_segment 1 5, example_segment 2 0, example_segment 3 0]"
  have h: "\<forall>p\<in>set (drop (nat 3) ?pool). remainingBounces p = 0"
    by (simp add: example_segment_def)
  note t = stream_compact_partition [OF h]
  have a: "fst (stream_compact 3 ?pool) =
      [example_segment 1 5, example_segment 0 0, example_segment 2 0, example_segment 3 0]"
    using t [THEN conjunct1] by (simp add: example_segment_def)
  have b: "snd (stream_compact 3 ?pool) = 1"
    using t [THEN conjunct2, THEN conjunct1] by (simp add: example_segment_def)
  have c: "list_all (\<lambda>p. remainingBounces p = 0) (drop (nat 3) ?pool)"
    by (simp add: example_segment_def)
  from a b c show ?thesis by (intro conjI)
qed

text \<open>
  C6, as stated, fails: a path with a negative \<open>remainingBounces\<close> is kept in front and
  counted, so the new \<open>num_paths\<close> is not the number of paths with
  \<open>remainingBounces > 0\<close>.
\<close>

theorem stream_compact_live_counterexample:
  "snd (stream_compact 2 [example_segment 0 0, example_segment 1 (- 1)]) = 1
   \<and> length (filter (\<lambda>p. remainingBounces p > 0) [example_segment 0 0, example_segment 1 (- 1)]) = 0"
  by (simp add: stream_compact_def stable_partition_def notEquals_def example_segment_def)

subsection \<open>Display\<close>

lemma launch2d_length:
  assumes thread: "\<And>x y s. int x < fst res \<Longrightarrow> int y < snd res \<Longrightarrow>
      thread (x, y) s =
        s[nat (int x + int y * fst res) := g x y (s ! nat (int x + int y * fst res))]"
    and idle: "\<And>xy s. \<not> (int (fst xy) < fst res \<and> int (snd xy) < snd res) \<Longrightarrow> thread xy s = s"
  shows "length (launch2d res thread s) = length s"
proof -
  let ?slot = "\<lambda>xy. nat (int (fst xy) + int (snd xy) * fst res)"
  let ?g = "\<lambda>xy. g (fst xy) (snd xy)"
  let ?f = "\<lambda>xy s. s[?slot xy := ?g xy (s ! ?slot xy)]"
  let ?ks = "List.product [0..<nat (fst res)] [0..<nat (snd res)]"
  have same: "fold thread ?ks s = fold ?f ?ks s"
    by (rule fold_cong) (auto simp: thread fun_eq_iff)
  have "length (fold ?f ?ks s) = length s"
    by (rule fold_scatter_length [where f = ?f and slot = ?slot and g = ?g]) simp
  then show ?thesis
    using launch2d_active [of res thread s] idle by (simp add: same)
qed

lemma present_length:
  "length (launch2d res (sendImageToPBO cfg res iter img) pbo) = length pbo"
  by (rule launch2d_length [where g = "\<lambda>x y old. old
           \<lparr>pw := 0,
            px := word_of_int (quantise (vx (display_pixel cfg (img ! nat (int x + int y * fst res))))),
            py := word_of_int (quantise (vy (display_pixel cfg (img ! nat (int x + int y * fst res))))),
            pz := word_of_int (quantise (vz (display_pixel cfg (img ! nat (int x + int y * fst res)))))\<rparr>"])
     (auto simp: sendImageToPBO_def Let_def)

lemma byte_fits:
  fixes v :: int
  shows "uint (word_of_int (min (max v 0) 255) :: 8 word) = min (max v 0) 255"
proof -
  have "0 \<le> min (max v 0) 255" and "min (max v 0) 255 < 2 ^ 8"
    by simp_all
  then show ?thesis
    by (simp add: uint_word_of_int take_bit_int_eq_self)
qed

text \<open>
  C9. The display pass changes the pixel buffer and nothing else: the image, its host copy,
  the pools and the rest of the memory are as before, whatever the switches. It leaves in
  the slot of every pixel \<open>(x, y)\<close> of the pixel buffer the alpha 0 and, for each channel
  \<open>c\<close> of the stored pixel, the byte of the displayed value: the displayed value is
  \<open>(c / (c + 1)) powr (1 / 2.2)\<close>, Reinhard then gamma, when the HDR correction is enabled,
  and \<open>c\<close> itself when it is not; the byte of \<open>v\<close> is \<open>v * 255\<close> truncated towards zero and
  clamped to \<open>[0, 255]\<close>, which lies in that range and is stored in eight bits without
  wrapping. The arithmetic is that of the reals.
\<close>

theorem present_tone_maps:
  fixes cfg :: config and res :: "int \<times> int" and d :: device_state and x y :: nat
  defines "slot \<equiv> nat (int x + int y * fst res)"
    and "shown \<equiv> \<lambda>c :: real.
           if ENABLE_HDR_GAMMA_CORRECTION cfg then (c / (c + 1)) powr (1 / 2.2) else c"
    and "byte \<equiv> \<lambda>v :: real.
           min (max (if 0 \<le> v * 255 then \<lfloor>v * 255\<rfloor> else \<lceil>v * 255\<rceil>) 0) (255 :: int)"
  shows "present cfg res iter d = d\<lparr>pbo_buf := pbo_buf (present cfg res iter d)\<rparr>
       \<and> dev_image (present cfg res iter d) = dev_image d
       \<and> host_image (present cfg res iter d) = host_image d
       \<and> length (pbo_buf (present cfg res iter d)) = length (pbo_buf d)
       \<and> (\<forall>v. 0 \<le> byte v \<and> byte v \<le> 255 \<and> uint (word_of_int (byte v) :: 8 word) = byte v)
       \<and> (int x < fst res \<and> int y < snd res \<and> slot < length (pbo_buf d) \<longrightarrow>
            pbo_buf (present cfg res iter d) ! slot =
              \<lparr>px = word_of_int (byte (shown (vx (dev_image d ! slot)))),
               py = word_of_int (byte (shown (vy (dev_image d ! slot)))),
               pz = word_of_int (byte (shown (vz (dev_image d ! slot)))),
               pw = 0\<rparr>)"
proof -
  have frame: "present cfg res iter d = d\<lparr>pbo_buf := pbo_buf (present cfg res iter d)\<rparr>"
    "dev_image (present cfg res iter d) = dev_image d"
    "host_image (present cfg res iter d) = host_image d"
    by (simp_all add: present_def)
  have len: "length (pbo_buf (present cfg res iter d)) = length (pbo_buf d)"
    by (simp add: present_def present_length)
  have range: "\<forall>v. 0 \<le> byte v \<and> byte v \<le> 255 \<and> uint (word_of_int (byte v) :: 8 word) = byte v"
    unfolding byte_def using byte_fits by simp
  have q: "quantise v = byte v" for v
    by (simp add: quantise_def clamp_int_def float_to_int_def byte_def)
  have sh: "display_pixel cfg pix = Vec3 (shown (vx pix)) (shown (vy pix)) (shown (vz pix))" for pix
    by (cases pix) (simp add: display_pixel_def gamma_correct_def reinhard_def GAMMA_def shown_def)
  have pixel: "pbo_buf (present cfg res iter d) ! slot =
      \<lparr>px = word_of_int (byte (shown (vx (dev_image d ! slot)))),
       py = word_of_int (byte (shown (vy (dev_image d ! slot)))),
       pz = word_of_int (byte (shown (vz (dev_image d ! slot)))),
       pw = 0\<rparr>"
    if h: "int x < fst res \<and> int y < snd res \<and> slot < length (pbo_buf d)"
  proof -
    have "pbo_buf (present cfg res iter d) ! slot =
        (pbo_buf d ! slot)
          \<lparr>pw := 0,
           px := word_of_int (quantise (vx (display_pixel cfg (dev_image d ! slot)))),
           py := word_of_int (quantise (vy (display_pixel cfg (dev_image d ! slot)))),
           pz := word_of_int (quantise (vz (display_pixel cfg (dev_image d ! slot))))\<rparr>"
      unfolding slot_def present_def using h
      by (simp add: present_pixel slot_def)
    then show ?thesis
      by (simp add: q sh)
  qed
  from frame len range pixel show ?thesis
    by blast
qed

lemma gamma_example: "(1 / 2048 :: real) powr (5 / 11) = 1 / 32"
proof -
  have "(1 / 2048 :: real) = (1 / 2) powr 11"
    by (simp add: power_one_over)
  then have "(1 / 2048 :: real) powr (5 / 11) = (1 / 2) powr (11 * (5 / 11))"
    by (simp only: powr_powr)
  also have "\<dots> = 1 / 32"
    by (simp add: power_one_over)
  finally show ?thesis .
qed

text \<open>
  Two instances on one pixel. With the correction disabled (the build) the pixel
  \<open>(1/2047, 1/2, 2)\<close> is shown as \<open>(0, 127, 255)\<close>: truncation, and the clamp at 255. With the
  correction enabled the pixel \<open>(1/2047, 0, 1/2047)\<close> is shown as \<open>(7, 0, 7)\<close>, because
  Reinhard takes \<open>1/2047\<close> to \<open>1/2048\<close> and gamma takes that to \<open>1/32\<close>; disabled, the channel
  would be 0. The buffer held 9 in every field before.
\<close>

theorem present_tone_maps_witness:
  "int 0 < fst (1 :: int, 1 :: int) \<and> int 0 < snd (1 :: int, 1 :: int)
   \<and> nat (int 0 + int 0 * fst (1 :: int, 1 :: int)) <
       length (pbo_buf (example_device\<lparr>pbo_buf := [\<lparr>px = 9, py = 9, pz = 9, pw = 9\<rparr>]\<rparr>))
   \<and> pbo_buf (present as_built (1, 1) 1
        (example_device\<lparr>dev_image := [Vec3 (1 / 2047) (1 / 2) 2],
           pbo_buf := [\<lparr>px = 9, py = 9, pz = 9, pw = 9\<rparr>]\<rparr>)) ! 0 =
      \<lparr>px = 0, py = 127, pz = 255, pw = 0\<rparr>
   \<and> pbo_buf (present (as_built\<lparr>ENABLE_HDR_GAMMA_CORRECTION := True\<rparr>) (1, 1) 1
        (example_device\<lparr>dev_image := [Vec3 (1 / 2047) 0 (1 / 2047)],
           pbo_buf := [\<lparr>px = 9, py = 9, pz = 9, pw = 9\<rparr>]\<rparr>)) ! 0 =
      \<lparr>px = 7, py = 0, pz = 7, pw = 0\<rparr>
   \<and> dev_image (present (as_built\<lparr>ENABLE_HDR_GAMMA_CORRECTION := True\<rparr>) (1, 1) 1
        (example_device\<lparr>dev_image := [Vec3 (1 / 2047) 0 (1 / 2047)],
           pbo_buf := [\<lparr>px = 9, py = 9, pz = 9, pw = 9\<rparr>]\<rparr>)) = [Vec3 (1 / 2047) 0 (1 / 2047)]"
  using present_tone_maps [where cfg = as_built
      and x = 0 and y = 0 and res = "(1, 1)" and iter = 1
      and d = "example_device\<lparr>dev_image := [Vec3 (1 / 2047) (1 / 2) 2],
           pbo_buf := [\<lparr>px = 9, py = 9, pz = 9, pw = 9\<rparr>]\<rparr>"]
    present_tone_maps [where cfg = "as_built\<lparr>ENABLE_HDR_GAMMA_CORRECTION := True\<rparr>"
      and x = 0 and y = 0 and res = "(1, 1)" and iter = 1
      and d = "example_device\<lparr>dev_image := [Vec3 (1 / 2047) 0 (1 / 2047)],
           pbo_buf := [\<lparr>px = 9, py = 9, pz = 9, pw = 9\<rparr>]\<rparr>"]
  by (simp add: example_device_def as_built_def gamma_example)

subsection \<open>The bounce loop\<close>





lemma pathtrace_traced:
  "shade_launches (pathtrace cfg fns scene iter d) =
     shade_launches (snd (snd (traced cfg fns scene iter d)))"
  "guiTracedDepth (pathtrace cfg fns scene iter d) =
     guiTracedDepth (snd (snd (traced cfg fns scene iter d)))"
  "dev_paths (pathtrace cfg fns scene iter d) = dev_paths (snd (snd (traced cfg fns scene iter d)))"
  by (simp_all add: pathtrace_def traced_def Let_def present_def split: prod.splits)




lemma example_intersect:
  "launch1d 1 (computeIntersections example_fns depth 1 ps [example_cube 0] 1 [] 0 [] 0) [z] =
     [z\<lparr>isect_t := 1, materialId := 0, surfaceNormal := Vec3 0 1 0\<rparr>]"
  by (subst launch1d_one_path)
     (simp_all add: computeIntersections_def geom_loop_def geom_loop_body_def Let_def
        example_cube_def example_fns_def isect_locals_init_def FLT_MAX_def)








subsection \<open>Accumulation\<close>

lemma map_update_same:
  assumes "f q = f (xs ! k)"
  shows "map f (xs[k := q]) = map f xs"
proof (rule nth_equalityI)
  show "length (map f (xs[k := q])) = length (map f xs)"
    by simp
  fix i assume "i < length (map f (xs[k := q]))"
  then have i: "i < length xs"
    by simp
  show "map f (xs[k := q]) ! i = map f xs ! i"
  proof (cases "i = k")
    case True
    with i assms show ?thesis by simp
  next
    case False
    with i show ?thesis by simp
  qed
qed

lemma fold_keeps: "(\<And>k s. g (f k s) = g s) \<Longrightarrow> g (fold f ks s) = g s"
  by (induction ks arbitrary: s) simp_all

lemma kernel_sample_f_pixelIndex:
  assumes "\<forall>path pt nrm mat g. pixelIndex (sample_f fns path pt nrm mat g) = pixelIndex path"
  shows "map pixelIndex (kernel_sample_f fns iter depth n isects mats k paths) = map pixelIndex paths"
  using assms by (simp add: kernel_sample_f_def Let_def map_update_same)

lemma shading_pixelIndex:
  assumes "\<forall>path pt nrm mat g. pixelIndex (sample_f fns path pt nrm mat g) = pixelIndex path"
  shows "map pixelIndex (launch1d n (kernel_sample_f fns iter depth n isects mats) paths) =
           map pixelIndex paths"
  unfolding launch1d_def
  by (rule fold_keeps [where g = "map pixelIndex"]) (rule kernel_sample_f_pixelIndex [OF assms])

lemma intersections_length:
  "length (launch1d n (computeIntersections fns depth n ps gs gn ts tn bs bn) isects) = length isects"
  unfolding launch1d_def
  by (rule fold_keeps [where g = length]) (simp add: computeIntersections_def Let_def)

lemma mset_pixelIndex:
  "mset xs = mset ys \<Longrightarrow> mset (map pixelIndex xs) = mset (map pixelIndex ys)"
  by (simp only: mset_map)

lemma sort_by_material_perm:
  assumes "length isects = length paths"
  shows "mset (map pixelIndex (snd (sort_by_material n isects paths))) = mset (map pixelIndex paths)"
    and "length (snd (sort_by_material n isects paths)) = length paths"
    and "length (fst (sort_by_material n isects paths)) = length isects"
proof -
  let ?ks = "take (nat n) isects" and ?vs = "take (nat n) paths"
  let ?zs = "sort_key (\<lambda>kv. materialId (fst kv)) (zip ?ks ?vs)"
  have l: "length ?ks = length ?vs"
    using assms by simp
  have s: "sort_by_material n isects paths =
      (map fst ?zs @ drop (nat n) isects, map snd ?zs @ drop (nat n) paths)"
    by (simp add: sort_by_material_def stable_sort_by_key_def Let_def)
  have "mset (map snd ?zs) = mset (map snd (zip ?ks ?vs))"
    by (simp only: mset_map mset_sort)
  also have "map snd (zip ?ks ?vs) = ?vs"
    using l by (rule map_snd_zip)
  finally have m: "mset (map snd ?zs) = mset ?vs" .
  have "mset (map snd ?zs @ drop (nat n) paths) = mset (map snd ?zs) + mset (drop (nat n) paths)"
    by (rule mset_append)
  also have "\<dots> = mset ?vs + mset (drop (nat n) paths)"
    by (simp only: m)
  also have "\<dots> = mset (?vs @ drop (nat n) paths)"
    by (rule mset_append [symmetric])
  also have "\<dots> = mset paths"
    by (simp only: append_take_drop_id)
  finally have "mset (snd (sort_by_material n isects paths)) = mset paths"
    by (simp only: s snd_conv)
  then show "mset (map pixelIndex (snd (sort_by_material n isects paths))) =
      mset (map pixelIndex paths)"
    by (rule mset_pixelIndex)
  have "length (map snd ?zs @ drop (nat n) paths) = length paths"
    using assms by simp
  then show "length (snd (sort_by_material n isects paths)) = length paths"
    by (simp only: s snd_conv)
  have "length (map fst ?zs @ drop (nat n) isects) = length isects"
    using l by simp
  then show "length (fst (sort_by_material n isects paths)) = length isects"
    by (simp only: s fst_conv)
qed

lemma mset_partition_list: "mset (filter P xs @ filter (\<lambda>x. \<not> P x) xs) = mset xs"
  by (induction xs) simp_all

lemma stream_compact_perm:
  shows "mset (map pixelIndex (fst (stream_compact n paths))) = mset (map pixelIndex paths)"
    and "length (fst (stream_compact n paths)) = length paths"
proof -
  let ?t = "take (nat n) paths"
  let ?f = "filter (notEquals 0) ?t @ filter (\<lambda>x. \<not> notEquals 0 x) ?t"
  have s: "fst (stream_compact n paths) = ?f @ drop (nat n) paths"
    by (simp add: stream_compact_def stable_partition_def)
  have "mset (?f @ drop (nat n) paths) = mset ?f + mset (drop (nat n) paths)"
    by (rule mset_append)
  also have "\<dots> = mset ?t + mset (drop (nat n) paths)"
    by (simp only: mset_partition_list)
  also have "\<dots> = mset (?t @ drop (nat n) paths)"
    by (rule mset_append [symmetric])
  also have "\<dots> = mset paths"
    by (simp only: append_take_drop_id)
  finally have "mset (fst (stream_compact n paths)) = mset paths"
    by (simp only: s)
  then show "mset (map pixelIndex (fst (stream_compact n paths))) = mset (map pixelIndex paths)"
    by (rule mset_pixelIndex)
  have "length (filter (notEquals 0) ?t) + length (filter (\<lambda>x. \<not> notEquals 0 x) ?t) = length ?t"
    by (rule sum_length_filter_compl)
  then have "length (?f @ drop (nat n) paths) = length paths"
    by simp
  then show "length (fst (stream_compact n paths)) = length paths"
    by (simp only: s)
qed

lemma bounce_keeps:
  assumes sf: "\<forall>path pt nrm mat g. pixelIndex (sample_f fns path pt nrm mat g) = pixelIndex path"
    and lp: "length (dev_paths d) = nat pc" and li: "length (dev_intersections d) = nat pc"
    and lc: "CACHE_FIRST_INTERSECTION cfg \<longrightarrow> length (dev_cached_intersections d) = nat pc"
  shows "length (dev_paths (snd (bounce cfg fns scene iter pc depth n d))) = nat pc
       \<and> length (dev_intersections (snd (bounce cfg fns scene iter pc depth n d))) = nat pc
       \<and> (CACHE_FIRST_INTERSECTION cfg \<longrightarrow>
            length (dev_cached_intersections (snd (bounce cfg fns scene iter pc depth n d))) = nat pc)
       \<and> mset (map pixelIndex (dev_paths (snd (bounce cfg fns scene iter pc depth n d)))) =
           mset (map pixelIndex (dev_paths d))
       \<and> dev_image (snd (bounce cfg fns scene iter pc depth n d)) = dev_image d"
proof -
  define d1 where "d1 =
    (if CACHE_FIRST_INTERSECTION cfg \<and> depth = 0 \<and> iter > 1
     then d\<lparr>dev_intersections :=
              cudaMemcpy (nat pc) (dev_cached_intersections d) (dev_intersections d)\<rparr>
     else d\<lparr>dev_intersections :=
              launch1d n
                (computeIntersections fns depth n (dev_paths d) (geoms scene)
                   (int (length (geoms scene))) (tris scene) (int (length (tris scene)))
                   (bvhNodes scene) (int (length (bvhNodes scene))))
                (cudaMemset0 (nat pc) zero_Intersection (dev_intersections d))\<rparr>)"
  define d2 where "d2 =
    (if CACHE_FIRST_INTERSECTION cfg \<and> depth = 0 \<and> iter = 1
     then d1\<lparr>dev_cached_intersections :=
              cudaMemcpy (nat pc) (dev_intersections d1) (dev_cached_intersections d1)\<rparr>
     else d1)"
  define d3 where "d3 =
    (if SORT_BY_MATERIAL cfg
     then d2\<lparr>dev_intersections := fst (sort_by_material n (dev_intersections d2) (dev_paths d2)),
             dev_paths := snd (sort_by_material n (dev_intersections d2) (dev_paths d2))\<rparr>
     else d2)"
  define d4 where "d4 =
    d3\<lparr>dev_paths :=
          launch1d n
            (kernel_sample_f fns iter (depth + 1) n (dev_intersections d3) (materials scene))
            (dev_paths d3),
        shade_launches := shade_launches d3 @ [(iter, depth + 1, n)]\<rparr>"
  define d5 where "d5 =
    (if STREAM_COMPACT cfg then d4\<lparr>dev_paths := fst (stream_compact n (dev_paths d4))\<rparr> else d4)"
  have b: "snd (bounce cfg fns scene iter pc depth n d) = d5"
    unfolding bounce_def Let_def d5_def d4_def d3_def d2_def d1_def
    by (simp split: prod.splits)
  have 1: "length (dev_paths d1) = nat pc" "length (dev_intersections d1) = nat pc"
    "CACHE_FIRST_INTERSECTION cfg \<longrightarrow> length (dev_cached_intersections d1) = nat pc"
    "dev_paths d1 = dev_paths d" "dev_image d1 = dev_image d"
    using lp li lc
    by (simp_all add: d1_def cudaMemcpy_def cudaMemset0_def intersections_length)
  have 2: "length (dev_paths d2) = nat pc" "length (dev_intersections d2) = nat pc"
    "CACHE_FIRST_INTERSECTION cfg \<longrightarrow> length (dev_cached_intersections d2) = nat pc"
    "dev_paths d2 = dev_paths d" "dev_image d2 = dev_image d"
    using 1 by (simp_all add: d2_def cudaMemcpy_def)
  have eq: "length (dev_intersections d2) = length (dev_paths d2)"
    using 2 by simp
  have 3: "length (dev_paths d3) = nat pc" "length (dev_intersections d3) = nat pc"
    "CACHE_FIRST_INTERSECTION cfg \<longrightarrow> length (dev_cached_intersections d3) = nat pc"
    "mset (map pixelIndex (dev_paths d3)) = mset (map pixelIndex (dev_paths d))"
    "dev_image d3 = dev_image d"
    using 2 sort_by_material_perm [OF eq, of n] by (simp_all add: d3_def)
  have m4: "map pixelIndex (dev_paths d4) = map pixelIndex (dev_paths d3)"
    by (simp add: d4_def shading_pixelIndex [OF sf])
  then have "length (map pixelIndex (dev_paths d4)) = length (map pixelIndex (dev_paths d3))"
    by (rule arg_cong)
  then have l4: "length (dev_paths d4) = nat pc"
    using 3 by simp
  have 4: "length (dev_intersections d4) = nat pc"
    "CACHE_FIRST_INTERSECTION cfg \<longrightarrow> length (dev_cached_intersections d4) = nat pc"
    "mset (map pixelIndex (dev_paths d4)) = mset (map pixelIndex (dev_paths d))"
    "dev_image d4 = dev_image d"
    using 3 m4 by (simp_all add: d4_def)
  have 5: "length (dev_paths d5) = nat pc" "length (dev_intersections d5) = nat pc"
    "CACHE_FIRST_INTERSECTION cfg \<longrightarrow> length (dev_cached_intersections d5) = nat pc"
    "mset (map pixelIndex (dev_paths d5)) = mset (map pixelIndex (dev_paths d))"
    "dev_image d5 = dev_image d"
    using 4 l4 stream_compact_perm [of n "dev_paths d4"] by (simp_all add: d5_def)
  from 5 show ?thesis
    unfolding b by (intro conjI)
qed

lemma trace_loop_keeps:
  assumes "\<forall>path pt nrm mat g. pixelIndex (sample_f fns path pt nrm mat g) = pixelIndex path"
    and "length (dev_paths d) = nat pc" and "length (dev_intersections d) = nat pc"
    and "CACHE_FIRST_INTERSECTION cfg \<longrightarrow> length (dev_cached_intersections d) = nat pc"
  shows "length (dev_paths (snd (snd (trace_loop cfg fns scene iter pc depth n d)))) = nat pc
       \<and> length (dev_intersections (snd (snd (trace_loop cfg fns scene iter pc depth n d)))) = nat pc
       \<and> (CACHE_FIRST_INTERSECTION cfg \<longrightarrow>
            length (dev_cached_intersections (snd (snd (trace_loop cfg fns scene iter pc depth n d))))
              = nat pc)
       \<and> mset (map pixelIndex (dev_paths (snd (snd (trace_loop cfg fns scene iter pc depth n d))))) =
           mset (map pixelIndex (dev_paths d))
       \<and> dev_image (snd (snd (trace_loop cfg fns scene iter pc depth n d))) = dev_image d"
  using assms
proof (induction cfg fns scene iter pc depth n d rule: trace_loop.induct)
  case (1 cfg fns scene iter pc depth n d)
  let ?nd = "bounce cfg fns scene iter pc depth n d"
  let ?d' = "(snd ?nd)\<lparr>guiTracedDepth := map_option (\<lambda>_. depth + 1) (guiTracedDepth (snd ?nd))\<rparr>"
  let ?r = "trace_loop cfg fns scene iter pc depth n d"
  note k = bounce_keeps [OF "1.prems", of scene iter depth n]
  have k': "length (dev_paths ?d') = nat pc" "length (dev_intersections ?d') = nat pc"
    "CACHE_FIRST_INTERSECTION cfg \<longrightarrow> length (dev_cached_intersections ?d') = nat pc"
    "mset (map pixelIndex (dev_paths ?d')) = mset (map pixelIndex (dev_paths d))"
    "dev_image ?d' = dev_image d"
    using k by simp_all
  show ?case
  proof (cases "depth + 1 \<ge> traceDepth scene \<or> fst ?nd = 0")
    case True
    have r: "?r = (depth + 1, fst ?nd, ?d')"
      by (subst trace_loop.simps) (use True in \<open>simp add: Let_def\<close>)
    from k' show ?thesis
      unfolding r snd_conv by (intro conjI)
  next
    case False
    let ?r' = "trace_loop cfg fns scene iter pc (depth + 1) (fst ?nd) ?d'"
    have r: "?r = ?r'"
      by (subst trace_loop.simps) (use False in \<open>simp add: Let_def\<close>)
    have IH: "length (dev_paths (snd (snd ?r'))) = nat pc
       \<and> length (dev_intersections (snd (snd ?r'))) = nat pc
       \<and> (CACHE_FIRST_INTERSECTION cfg \<longrightarrow> length (dev_cached_intersections (snd (snd ?r'))) = nat pc)
       \<and> mset (map pixelIndex (dev_paths (snd (snd ?r')))) = mset (map pixelIndex (dev_paths ?d'))
       \<and> dev_image (snd (snd ?r')) = dev_image ?d'"
      using False k'(1,2,3) "1.prems"(1)
      by (intro "1.IH" [OF refl refl refl refl]) simp_all
    then show ?thesis
      unfolding r using k'(4,5) by simp
  qed
qed
lemma generate_length:
  "length (launch2d (resolution cam) (generateRayFromCamera cfg fns cam iter D) pool) = length pool"
  by (rule launch2d_length [where g = "camera_segment cfg fns cam iter D"])
     (auto simp: generateRayFromCamera_def Let_def)

lemma generate_all:
  assumes W: "0 \<le> fst (resolution cam)"
    and len: "length pool = nat (fst (resolution cam) * snd (resolution cam))"
  shows "map pixelIndex (launch2d (resolution cam) (generateRayFromCamera cfg fns cam iter D) pool) =
           map int [0..<length pool]"
proof (rule nth_equalityI)
  let ?W = "fst (resolution cam)" and ?H = "snd (resolution cam)"
  let ?gen = "launch2d (resolution cam) (generateRayFromCamera cfg fns cam iter D) pool"
  show "length (map pixelIndex ?gen) = length (map int [0..<length pool])"
    by (simp add: generate_length)
  fix i assume "i < length (map pixelIndex ?gen)"
  then have i: "i < length pool"
    by (simp add: generate_length)
  then have pos: "0 < ?W * ?H" and ii: "int i < ?W * ?H"
    using len by linarith+
  have Wp: "0 < ?W"
    using pos W by (cases "?W = 0") simp_all
  then have Hp: "0 < ?H"
    using pos by (simp add: zero_less_mult_iff)
  define x where "x = nat (int i mod ?W)"
  define y where "y = nat (int i div ?W)"
  have x: "int x = int i mod ?W" and y: "int y = int i div ?W"
    using Wp by (simp_all add: x_def y_def pos_imp_zdiv_nonneg_iff)
  have xl: "int x < ?W"
    using Wp by (simp add: x)
  have "0 \<le> int i mod ?W"
    using Wp by simp
  moreover have "?W * (int i div ?W) + int i mod ?W = int i"
    by simp
  ultimately have "?W * (int i div ?W) < ?W * ?H"
    using ii by linarith
  then have "int i div ?W < ?H"
    using Wp by (simp only: mult_less_cancel_left_pos)
  then have yl: "int y < ?H"
    by (simp add: y)
  have slot: "int x + int y * ?W = int i"
    by (simp add: x y)
  then have sl: "nat (int x + int y * ?W) = i"
    by simp
  have "nat (int x + int y * ?W) < length pool"
    using i by (simp only: sl)
  with xl yl have "?gen ! nat (int x + int y * ?W) =
      camera_segment cfg fns cam iter D x y (pool ! nat (int x + int y * ?W))"
    by (rule generate_pixel)
  then have "pixelIndex (?gen ! i) = int i"
    unfolding sl by (simp add: camera_segment_fields slot)
  then show "map pixelIndex ?gen ! i = map int [0..<length pool] ! i"
    using i by (simp add: generate_length)
qed

lemma one_path_upt: "map pixelIndex pool = map int [0..<n] \<Longrightarrow> one_path_per_pixel n pool"
  by (simp add: one_path_per_pixel_def distinct_map inj_on_def)

lemma one_path_perm:
  assumes "mset (map pixelIndex a) = mset (map pixelIndex b)"
  shows "one_path_per_pixel n a = one_path_per_pixel n b"
  using mset_eq_imp_distinct_iff [OF assms] mset_eq_setD [OF assms]
  by (simp only: one_path_per_pixel_def)

text \<open>
  The pool the bounces of an iteration leave. When \<^verbatim>\<open>sample_f\<close> leaves the pixel index of a
  path alone, the pool holds exactly one path for each pixel: the generation puts the
  path of pixel \<open>i\<close> in slot \<open>i\<close>, the shading keeps the pixel indices, and the sort
  and the compaction permute the pool. The image is not touched.
\<close>

lemma traced_keeps:
  assumes sf: "\<forall>path pt nrm mat g. pixelIndex (sample_f fns path pt nrm mat g) = pixelIndex path"
    and W: "0 \<le> fst (resolution (camera scene))"
    and lp: "length (dev_paths d) = nat (fst (resolution (camera scene)) * snd (resolution (camera scene)))"
    and li: "length (dev_intersections d) =
        nat (fst (resolution (camera scene)) * snd (resolution (camera scene)))"
    and lc: "CACHE_FIRST_INTERSECTION cfg \<longrightarrow> length (dev_cached_intersections d) =
        nat (fst (resolution (camera scene)) * snd (resolution (camera scene)))"
  shows "one_path_per_pixel (nat (fst (resolution (camera scene)) * snd (resolution (camera scene))))
           (dev_paths (snd (snd (traced cfg fns scene iter d))))"
    and "length (dev_paths (snd (snd (traced cfg fns scene iter d)))) =
           nat (fst (resolution (camera scene)) * snd (resolution (camera scene)))"
    and "length (dev_intersections (snd (snd (traced cfg fns scene iter d)))) =
           nat (fst (resolution (camera scene)) * snd (resolution (camera scene)))"
    and "CACHE_FIRST_INTERSECTION cfg \<longrightarrow>
           length (dev_cached_intersections (snd (snd (traced cfg fns scene iter d)))) =
           nat (fst (resolution (camera scene)) * snd (resolution (camera scene)))"
    and "dev_image (snd (snd (traced cfg fns scene iter d))) = dev_image d"
proof -
  let ?pc = "fst (resolution (camera scene)) * snd (resolution (camera scene))"
  let ?gen = "launch2d (resolution (camera scene))
      (generateRayFromCamera cfg fns (camera scene) iter (traceDepth scene)) (dev_paths d)"
  let ?d0 = "d\<lparr>dev_paths := ?gen\<rparr>"
  have tr: "traced cfg fns scene iter d = trace_loop cfg fns scene iter ?pc 0 ?pc ?d0"
    by (simp add: traced_def Let_def)
  have g: "map pixelIndex ?gen = map int [0..<nat ?pc]"
    using generate_all [OF W lp, of cfg fns iter "traceDepth scene"] lp by simp
  then have v: "one_path_per_pixel (nat ?pc) ?gen"
    by (rule one_path_upt)
  have lg: "length ?gen = nat ?pc"
    using lp by (simp add: generate_length)
  have k: "length (dev_paths (snd (snd (trace_loop cfg fns scene iter ?pc 0 ?pc ?d0)))) = nat ?pc
       \<and> length (dev_intersections (snd (snd (trace_loop cfg fns scene iter ?pc 0 ?pc ?d0)))) = nat ?pc
       \<and> (CACHE_FIRST_INTERSECTION cfg \<longrightarrow>
            length (dev_cached_intersections (snd (snd (trace_loop cfg fns scene iter ?pc 0 ?pc ?d0))))
              = nat ?pc)
       \<and> mset (map pixelIndex (dev_paths (snd (snd (trace_loop cfg fns scene iter ?pc 0 ?pc ?d0))))) =
           mset (map pixelIndex (dev_paths ?d0))
       \<and> dev_image (snd (snd (trace_loop cfg fns scene iter ?pc 0 ?pc ?d0))) = dev_image ?d0"
    using lg li lc by (intro trace_loop_keeps [OF sf]) simp_all
  from k have m: "mset (map pixelIndex (dev_paths (snd (snd (traced cfg fns scene iter d))))) =
      mset (map pixelIndex ?gen)"
    by (simp add: tr)
  show "one_path_per_pixel (nat ?pc) (dev_paths (snd (snd (traced cfg fns scene iter d))))"
    using v one_path_perm [OF m, of "nat ?pc"] by simp
  from k show "length (dev_paths (snd (snd (traced cfg fns scene iter d)))) = nat ?pc"
    and "length (dev_intersections (snd (snd (traced cfg fns scene iter d)))) = nat ?pc"
    and "CACHE_FIRST_INTERSECTION cfg \<longrightarrow>
           length (dev_cached_intersections (snd (snd (traced cfg fns scene iter d)))) = nat ?pc"
    and "dev_image (snd (snd (traced cfg fns scene iter d))) = dev_image d"
    by (simp_all add: tr)
qed
lemma one_path_length:
  assumes "one_path_per_pixel n pool"
  shows "length pool = n"
proof -
  have "distinct (map pixelIndex pool)"
    using assms by (simp add: one_path_per_pixel_def)
  then have "card (set (map pixelIndex pool)) = length (map pixelIndex pool)"
    by (rule distinct_card)
  then have "length (map pixelIndex pool) = card (set (map pixelIndex pool))"
    by (rule sym)
  also have "\<dots> = card (int ` {0..<n})"
    using assms by (simp add: one_path_per_pixel_def)
  also have "\<dots> = n"
    by (simp add: card_image)
  finally show ?thesis by simp
qed

lemma one_path_find:
  assumes "one_path_per_pixel n pool" and "k < length pool" and "pixelIndex (pool ! k) = int p"
  shows "estimate pool p = color (pool ! k)"
proof -
  have d: "distinct (map pixelIndex pool)"
    using assms(1) by (simp add: one_path_per_pixel_def)
  have "\<forall>j<k. pixelIndex (pool ! j) \<noteq> int p"
  proof (intro allI impI notI)
    fix j assume "j < k" and e: "pixelIndex (pool ! j) = int p"
    then have "map pixelIndex pool ! j = map pixelIndex pool ! k"
      and "j < length (map pixelIndex pool)" and "k < length (map pixelIndex pool)"
      using assms(2,3) by simp_all
    then have "j = k"
      using nth_eq_iff_index_eq [OF d, of j k] by blast
    with \<open>j < k\<close> show False by simp
  qed
  then have "find (\<lambda>q. pixelIndex q = int p) pool = Some (pool ! k)"
    using assms(2,3) by (auto simp: find_Some_iff)
  then show ?thesis by (simp add: estimate_def)
qed

lemma gather_pixel:
  assumes valid: "one_path_per_pixel n pool" and len: "length img = n"
  shows "p < n \<Longrightarrow> launch1d (int n) (finalGather fns (int n) i pool) img ! p =
           glm_mix fns (img ! p) (estimate pool p) (float_weight i)"
    and "length (launch1d (int n) (finalGather fns (int n) i pool) img) = n"
proof -
  let ?slot = "\<lambda>k. nat (pixelIndex (pool ! k))"
  let ?g = "\<lambda>k c. glm_mix fns c (color (pool ! k)) (float_weight i)"
  let ?f = "\<lambda>k s. s[?slot k := ?g k (s ! ?slot k)]"
  have lp: "length pool = n" by (rule one_path_length [OF valid])
  have launch: "launch1d (int n) (finalGather fns (int n) i pool) s =
      fold (finalGather fns (int n) i pool) [0..<n] s" for s
    using launch1d_active [of "int n" "finalGather fns (int n) i pool" s]
    by (simp add: finalGather_def)
  have same: "fold (finalGather fns (int n) i pool) [0..<n] s = fold ?f [0..<n] s" for s
    by (rule fold_cong) (simp_all add: finalGather_def Let_def fun_eq_iff float_weight_def)
  show "length (launch1d (int n) (finalGather fns (int n) i pool) img) = n"
    using fold_scatter_length [where f = ?f and slot = ?slot and g = ?g, of "[0..<n]" img] len
    by (simp add: launch same)
  assume p: "p < n"
  have nonneg: "\<forall>v\<in>set (map pixelIndex pool). 0 \<le> v"
    using valid by (auto simp: one_path_per_pixel_def)
  have "map ?slot [0..<n] = map nat (map pixelIndex pool)"
    using lp by (intro nth_equalityI) simp_all
  moreover have "distinct (map nat (map pixelIndex pool))"
    using valid nonneg
    by (subst distinct_map) (auto simp: one_path_per_pixel_def inj_on_def)
  ultimately have dist: "distinct (map ?slot [0..<n])" by simp
  have "int p \<in> set (map pixelIndex pool)"
    using valid p by (simp add: one_path_per_pixel_def)
  then obtain k where k: "k < n" "pixelIndex (pool ! k) = int p"
    using lp by (auto simp: in_set_conv_nth)
  have "fold ?f [0..<n] img ! ?slot k = ?g k (img ! ?slot k)"
    by (rule fold_scatter [where f = ?f and slot = ?slot and g = ?g, OF _ dist])
       (use k p len in simp_all)
  then show "launch1d (int n) (finalGather fns (int n) i pool) img ! p =
           glm_mix fns (img ! p) (estimate pool p) (float_weight i)"
    using k lp one_path_find [OF valid, of k p] by (simp add: launch same)
qed

lemma gather_length:
  "length (launch1d n (finalGather fns m i pool) img) = length img"
  unfolding launch1d_def
  by (rule fold_keeps [where g = length]) (simp add: finalGather_def Let_def)

lemma pathtrace_image:
  "dev_image (pathtrace cfg fns scene iter d) =
     launch1d (fst (resolution (camera scene)) * snd (resolution (camera scene)))
       (finalGather fns (fst (resolution (camera scene)) * snd (resolution (camera scene))) iter
          (dev_paths (snd (snd (traced cfg fns scene iter d)))))
       (dev_image (snd (snd (traced cfg fns scene iter d))))"
  "dev_intersections (pathtrace cfg fns scene iter d) =
     dev_intersections (snd (snd (traced cfg fns scene iter d)))"
  "dev_cached_intersections (pathtrace cfg fns scene iter d) =
     dev_cached_intersections (snd (snd (traced cfg fns scene iter d)))"
  by (simp_all add: pathtrace_def traced_def Let_def present_def split: prod.splits)

text \<open>
  One call of \<^verbatim>\<open>pathtrace\<close>: every pixel of the image is blended once, with the colour of
  the path of that pixel in the pool the bounces left and with the weight of the
  iteration; the sizes of the arrays are kept.
\<close>

lemma pathtrace_step:
  assumes sf: "\<forall>path pt nrm mat g. pixelIndex (sample_f fns path pt nrm mat g) = pixelIndex path"
    and W: "0 \<le> fst (resolution (camera scene))"
    and lp: "length (dev_paths d) = nat (fst (resolution (camera scene)) * snd (resolution (camera scene)))"
    and li: "length (dev_intersections d) =
        nat (fst (resolution (camera scene)) * snd (resolution (camera scene)))"
    and lc: "CACHE_FIRST_INTERSECTION cfg \<longrightarrow> length (dev_cached_intersections d) =
        nat (fst (resolution (camera scene)) * snd (resolution (camera scene)))"
    and lm: "length (dev_image d) = nat (fst (resolution (camera scene)) * snd (resolution (camera scene)))"
  shows "p < nat (fst (resolution (camera scene)) * snd (resolution (camera scene))) \<Longrightarrow>
         dev_image (pathtrace cfg fns scene iter d) ! p =
           glm_mix fns (dev_image d ! p)
             (estimate (dev_paths (snd (snd (traced cfg fns scene iter d)))) p) (float_weight iter)"
    and "length (dev_paths (pathtrace cfg fns scene iter d)) =
           nat (fst (resolution (camera scene)) * snd (resolution (camera scene)))"
    and "length (dev_intersections (pathtrace cfg fns scene iter d)) =
           nat (fst (resolution (camera scene)) * snd (resolution (camera scene)))"
    and "CACHE_FIRST_INTERSECTION cfg \<longrightarrow>
           length (dev_cached_intersections (pathtrace cfg fns scene iter d)) =
           nat (fst (resolution (camera scene)) * snd (resolution (camera scene)))"
    and "length (dev_image (pathtrace cfg fns scene iter d)) =
           nat (fst (resolution (camera scene)) * snd (resolution (camera scene)))"
proof -
  let ?pc = "fst (resolution (camera scene)) * snd (resolution (camera scene))"
  let ?T = "snd (snd (traced cfg fns scene iter d))"
  note t = traced_keeps [OF sf W lp li lc, where iter = iter]
  show "length (dev_paths (pathtrace cfg fns scene iter d)) = nat ?pc"
    and "length (dev_intersections (pathtrace cfg fns scene iter d)) = nat ?pc"
    and "CACHE_FIRST_INTERSECTION cfg \<longrightarrow>
           length (dev_cached_intersections (pathtrace cfg fns scene iter d)) = nat ?pc"
    using t by (simp_all add: pathtrace_traced pathtrace_image)
  have img: "length (dev_image ?T) = nat ?pc"
    using t(5) lm by simp
  show "length (dev_image (pathtrace cfg fns scene iter d)) = nat ?pc"
    using img by (simp add: pathtrace_image gather_length)
  assume p: "p < nat ?pc"
  then have "0 < ?pc" by linarith
  then have e: "int (nat ?pc) = ?pc" by simp
  from gather_pixel(1) [OF t(1) img p, where fns = fns and i = iter]
  show "dev_image (pathtrace cfg fns scene iter d) ! p =
      glm_mix fns (dev_image d ! p) (estimate (dev_paths ?T) p) (float_weight iter)"
    unfolding e by (simp add: pathtrace_image t(5))
qed

lemma running_blend_snoc:
  "running_blend blend weight i m (cs @ [c]) =
     blend (running_blend blend weight i m cs) c (weight (i + int (length cs)))"
  by (induction cs arbitrary: i m) (simp_all add: add.assoc)

lemma upt_estimates:
  "map f [0..<Suc k] = map f [0..<k] @ [f k]"
  by simp

text \<open>
  The calls of \<^verbatim>\<open>pathtrace\<close> for the iterations \<open>1, \<dots>, N\<close>: the pixel of the image is the
  recurrence over the colour estimates of the iterations, and the pool of every iteration
  holds one path per pixel.
\<close>

lemma render_invariant:
  assumes sf: "\<forall>path pt nrm mat g. pixelIndex (sample_f fns path pt nrm mat g) = pixelIndex path"
    and W: "0 \<le> fst (resolution (camera scene))"
    and lp: "length (dev_paths d) = nat (fst (resolution (camera scene)) * snd (resolution (camera scene)))"
    and li: "length (dev_intersections d) =
        nat (fst (resolution (camera scene)) * snd (resolution (camera scene)))"
    and lc: "CACHE_FIRST_INTERSECTION cfg \<longrightarrow> length (dev_cached_intersections d) =
        nat (fst (resolution (camera scene)) * snd (resolution (camera scene)))"
    and lm: "length (dev_image d) = nat (fst (resolution (camera scene)) * snd (resolution (camera scene)))"
    and p: "p < nat (fst (resolution (camera scene)) * snd (resolution (camera scene)))"
  shows "dev_image (render cfg fns scene N d) ! p =
           running_blend (glm_mix fns) float_weight 1 (dev_image d ! p)
             (map (\<lambda>k. iteration_estimate cfg fns scene d k p) [0..<N])
       \<and> length (dev_paths (render cfg fns scene N d)) =
           nat (fst (resolution (camera scene)) * snd (resolution (camera scene)))
       \<and> length (dev_intersections (render cfg fns scene N d)) =
           nat (fst (resolution (camera scene)) * snd (resolution (camera scene)))
       \<and> (CACHE_FIRST_INTERSECTION cfg \<longrightarrow>
           length (dev_cached_intersections (render cfg fns scene N d)) =
           nat (fst (resolution (camera scene)) * snd (resolution (camera scene))))
       \<and> length (dev_image (render cfg fns scene N d)) =
           nat (fst (resolution (camera scene)) * snd (resolution (camera scene)))"
proof (induction N)
  case 0
  from lp li lc lm show ?case by simp
next
  case (Suc N)
  let ?d = "render cfg fns scene N d"
  from Suc.IH have IH: "dev_image ?d ! p =
        running_blend (glm_mix fns) float_weight 1 (dev_image d ! p)
          (map (\<lambda>k. iteration_estimate cfg fns scene d k p) [0..<N])"
    and l: "length (dev_paths ?d) =
        nat (fst (resolution (camera scene)) * snd (resolution (camera scene)))"
      "length (dev_intersections ?d) =
        nat (fst (resolution (camera scene)) * snd (resolution (camera scene)))"
      "CACHE_FIRST_INTERSECTION cfg \<longrightarrow> length (dev_cached_intersections ?d) =
        nat (fst (resolution (camera scene)) * snd (resolution (camera scene)))"
      "length (dev_image ?d) =
        nat (fst (resolution (camera scene)) * snd (resolution (camera scene)))"
    by blast+
  note s = pathtrace_step [OF sf W l, where iter = "int (Suc N)"]
  have "dev_image (render cfg fns scene (Suc N) d) ! p =
      glm_mix fns (dev_image ?d ! p) (iteration_estimate cfg fns scene d N p)
        (float_weight (int (Suc N)))"
    using s(1) [OF p] by (simp add: iteration_estimate_def)
  also have "\<dots> = running_blend (glm_mix fns) float_weight 1 (dev_image d ! p)
      (map (\<lambda>k. iteration_estimate cfg fns scene d k p) [0..<N]
         @ [iteration_estimate cfg fns scene d N p])"
    by (simp only: running_blend_snoc IH length_map length_upt) (simp add: add.commute)
  finally have "dev_image (render cfg fns scene (Suc N) d) ! p =
      running_blend (glm_mix fns) float_weight 1 (dev_image d ! p)
        (map (\<lambda>k. iteration_estimate cfg fns scene d k p) [0..<Suc N])"
    by (simp only: upt_estimates)
  moreover have "length (dev_paths (render cfg fns scene (Suc N) d)) =
        nat (fst (resolution (camera scene)) * snd (resolution (camera scene)))"
      "length (dev_intersections (render cfg fns scene (Suc N) d)) =
        nat (fst (resolution (camera scene)) * snd (resolution (camera scene)))"
      "CACHE_FIRST_INTERSECTION cfg \<longrightarrow>
        length (dev_cached_intersections (render cfg fns scene (Suc N) d)) =
        nat (fst (resolution (camera scene)) * snd (resolution (camera scene)))"
      "length (dev_image (render cfg fns scene (Suc N) d)) =
        nat (fst (resolution (camera scene)) * snd (resolution (camera scene)))"
    using s(2-5) by simp_all
  ultimately show ?case
    by (intro conjI)
qed

lemma vsum_Cons: "vsum (c # cs) = vadd c (vsum cs)"
  by (simp add: vsum_def)

lemma vsum_snoc: "vsum (cs @ [c]) = vadd (vsum cs) c"
  by (induction cs) (simp_all add: vsum_def vadd_def)

lemma mix_channel:
  fixes a c :: real
  shows "(a * (1 - 1 / (real k + 1)) + c * (1 / (real k + 1))) * (real k + 1) = a * real k + c"
proof -
  have nz: "real k + 1 \<noteq> 0"
    using of_nat_0_le_iff [of k, where ?'a = real] by linarith
  then have x: "(1 - 1 / (real k + 1)) * (real k + 1) = real k"
    and y: "1 / (real k + 1) * (real k + 1) = 1"
    by (simp_all add: left_diff_distrib)
  have "(a * (1 - 1 / (real k + 1)) + c * (1 / (real k + 1))) * (real k + 1) =
        a * ((1 - 1 / (real k + 1)) * (real k + 1)) + c * (1 / (real k + 1) * (real k + 1))"
    by (simp only: distrib_right mult.assoc)
  then show ?thesis
    by (simp only: x y mult_1_right)
qed

lemma exact_mix_step:
  assumes "vscale a (real k) = s"
  shows "vscale (exact_mix a c (1 / real_of_int (int k + 1))) (real (Suc k)) = vadd s c"
proof -
  have i: "real_of_int (int k + 1) = real k + 1" and j: "real (Suc k) = real k + 1"
    by simp_all
  show ?thesis
    unfolding assms [symmetric] exact_mix_def vscale_def vadd_def i j vec3.sel
    by (simp only: mix_channel)
qed

text \<open>
  In exact arithmetic the recurrence keeps the running mean: after the colours \<open>cs\<close> have
  been blended in, the pixel times the number of colours blended so far is their sum.
\<close>

lemma running_blend_exact:
  assumes "vscale m (real k) = vsum done"
  shows "vscale (running_blend exact_mix (\<lambda>i. 1 / real_of_int i) (int k + 1) m cs)
           (real (k + length cs)) = vsum (done @ cs)"
  using assms
proof (induction cs arbitrary: m k "done")
  case Nil
  then show ?case by simp
next
  case (Cons c cs)
  let ?m = "exact_mix m c (1 / real_of_int (int k + 1))"
  have inv: "vscale ?m (real (Suc k)) = vsum (done @ [c])"
    using exact_mix_step [OF Cons.prems] by (simp add: vsum_snoc)
  have "vscale (running_blend exact_mix (\<lambda>i. 1 / real_of_int i) (int (Suc k) + 1) ?m cs)
          (real (Suc k + length cs)) = vsum ((done @ [c]) @ cs)"
    using inv by (rule Cons.IH)
  then show ?case
    by (simp add: add.commute add.left_commute)
qed

text \<open>
  C2, as the code has it. Start from the memory \<^verbatim>\<open>pathtraceInit\<close> leaves (a zeroed image of
  \<open>W * H\<close> pixels) and call \<^verbatim>\<open>pathtrace\<close> for the iterations \<open>1, \<dots>, N\<close>, with a \<^verbatim>\<open>sample_f\<close>
  that leaves the pixel index of a path alone. For every pixel \<open>p\<close>, let \<open>cs\<close> be the
  colour estimates of the \<open>N\<close> iterations for \<open>p\<close>. Then the image at \<open>p\<close> is the value of
  the recurrence that starts at \<open>(0, 0, 0)\<close> and blends in the estimate of iteration \<open>i\<close> by
  \<^verbatim>\<open>glm::mix\<close> with the weight \<^verbatim>\<open>1.0f / i\<close> in single precision; the pool of every iteration
  holds exactly one path per pixel, so each pixel is blended exactly once per iteration;
  and the same recurrence with the blend and the weights of exact arithmetic is the sum
  of the estimates divided by \<open>N\<close>.
\<close>

theorem progressive_mean:
  fixes cfg :: config and fns :: "('g, 'tri, 'bvh, 'z) device_fns_scheme"
    and scene :: "('g, 'tri, 'bvh, 'y) Scene_scheme" and fresh :: "PathSegment list"
    and d :: device_state and N p :: nat
  defines "pc \<equiv> nat (fst (resolution (camera scene)) * snd (resolution (camera scene)))"
    and "cs \<equiv> map (\<lambda>k. iteration_estimate cfg fns scene (pathtraceInit cfg scene fresh d) k p)
                 [0..<N]"
  assumes W: "0 \<le> fst (resolution (camera scene))" and fresh: "length fresh = pc" and p: "p < pc"
    and sf: "\<forall>path pt nrm mat g. pixelIndex (sample_f fns path pt nrm mat g) = pixelIndex path"
    and N: "1 \<le> N"
  shows "dev_image (render cfg fns scene N (pathtraceInit cfg scene fresh d)) ! p =
           running_blend (glm_mix fns) float_weight 1 (Vec3 0 0 0) cs
       \<and> (\<forall>k<N. one_path_per_pixel pc
             (dev_paths (snd (snd (traced cfg fns scene (int (Suc k))
                (render cfg fns scene k (pathtraceInit cfg scene fresh d)))))))
       \<and> running_blend exact_mix (\<lambda>i. 1 / real_of_int i) 1 (Vec3 0 0 0) cs =
           vscale (vsum cs) (1 / real N)"
proof -
  let ?d0 = "pathtraceInit cfg scene fresh d"
  have i: "length (dev_paths ?d0) =
        nat (fst (resolution (camera scene)) * snd (resolution (camera scene)))"
      "length (dev_intersections ?d0) =
        nat (fst (resolution (camera scene)) * snd (resolution (camera scene)))"
      "CACHE_FIRST_INTERSECTION cfg \<longrightarrow> length (dev_cached_intersections ?d0) =
        nat (fst (resolution (camera scene)) * snd (resolution (camera scene)))"
      "length (dev_image ?d0) =
        nat (fst (resolution (camera scene)) * snd (resolution (camera scene)))"
    using fresh by (simp_all add: pathtraceInit_def Let_def pc_def)
  have p': "p < nat (fst (resolution (camera scene)) * snd (resolution (camera scene)))"
    using p by (simp add: pc_def)
  have z: "dev_image ?d0 ! p = Vec3 0 0 0"
    using p by (simp add: pathtraceInit_def Let_def pc_def)
  note r = render_invariant [OF sf W i p']
  have a: "dev_image (render cfg fns scene N ?d0) ! p =
      running_blend (glm_mix fns) float_weight 1 (Vec3 0 0 0) cs"
    using r [of N, THEN conjunct1] by (simp only: z cs_def)
  have b: "\<forall>k<N. one_path_per_pixel pc
      (dev_paths (snd (snd (traced cfg fns scene (int (Suc k)) (render cfg fns scene k ?d0)))))"
  proof (intro allI impI)
    fix k
    have l: "length (dev_paths (render cfg fns scene k ?d0)) =
          nat (fst (resolution (camera scene)) * snd (resolution (camera scene)))"
        "length (dev_intersections (render cfg fns scene k ?d0)) =
          nat (fst (resolution (camera scene)) * snd (resolution (camera scene)))"
        "CACHE_FIRST_INTERSECTION cfg \<longrightarrow>
          length (dev_cached_intersections (render cfg fns scene k ?d0)) =
          nat (fst (resolution (camera scene)) * snd (resolution (camera scene)))"
      using r [of k] by blast+
    show "one_path_per_pixel pc
        (dev_paths (snd (snd (traced cfg fns scene (int (Suc k)) (render cfg fns scene k ?d0)))))"
      unfolding pc_def by (rule traced_keeps(1) [OF sf W l])
  qed
  have "vscale (Vec3 0 0 0) (real 0) = vsum []"
    by (simp add: vscale_def vsum_def)
  from running_blend_exact [OF this, of cs]
  have e: "vscale (running_blend exact_mix (\<lambda>i. 1 / real_of_int i) 1 (Vec3 0 0 0) cs) (real N) =
      vsum cs"
    by (simp add: cs_def)
  let ?r = "running_blend exact_mix (\<lambda>i. 1 / real_of_int i) 1 (Vec3 0 0 0) cs"
  have nz: "real N \<noteq> 0" using N by simp
  have "vscale (vscale ?r (real N)) (1 / real N) = ?r"
    using nz by (cases ?r) (simp add: vscale_def)
  with e have c: "?r = vscale (vsum cs) (1 / real N)"
    by simp
  from a b c show ?thesis
    by (intro conjI)
qed

lemma binade_numeral:
  "binade (numeral k) x =
     (if 2 \<le> x then binade (pred_numeral k) (x / 2) + 1
      else if x < 1 then binade (pred_numeral k) (x * 2) - 1 else 0)"
  by (simp add: numeral_eq_Suc)

lemma example_weights:
  "float_weight 1 = 1" "float_weight 2 = 1 / 2" "float_weight 3 = 11184811 / 33554432"
  by (simp_all add: float_weight_def binary32_def binade_numeral round_to_even_def Let_def)

lemma example_blend:
  "running_blend float_mix float_weight 1 (Vec3 0 0 0)
     [Vec3 3 3 3, Vec3 3 3 3, Vec3 3 3 3] = Vec3 3 3 3"
  by (simp add: example_weights float_mix_def binary32_def binade_numeral round_to_even_def Let_def)

lemma example_gather:
  "pixelIndex q = 0 \<Longrightarrow>
   launch1d 1 (finalGather fns 1 i [q]) [c] = [glm_mix fns c (color q) (float_weight i)]"
  by (subst launch1d_one_path) (simp_all add: finalGather_def float_weight_def)

lemma example_bounce_built:
  assumes "dev_paths d = [p]" and "remainingBounces p \<noteq> 0" and "dev_intersections d = [z]"
    and "emittance m > 0"
  shows "bounce as_built example_fns ((example_scene D)\<lparr>materials := [m]\<rparr>) iter 1 depth 1 d =
           (1, d\<lparr>dev_intersections :=
                   [zero_Intersection\<lparr>isect_t := 1, materialId := 0, surfaceNormal := Vec3 0 1 0\<rparr>],
                 dev_paths := [p\<lparr>color := vmul (vscale (Material.color m) (emittance m))
                                           (accum_throughput p),
                                remainingBounces := 0\<rparr>],
                 shade_launches := shade_launches d @ [(iter, depth + 1, 1)]\<rparr>)"
proof -
  let ?z = "zero_Intersection\<lparr>isect_t := 1, materialId := 0, surfaceNormal := Vec3 0 1 0\<rparr>"
  have i: "launch1d 1
      (computeIntersections example_fns depth 1 [p] [example_cube 0] 1 [] 0 [] 0)
      (cudaMemset0 (Suc 0) zero_Intersection [z]) = [?z]"
    by (simp add: cudaMemset0_def example_intersect)
  have s: "launch1d 1 (kernel_sample_f example_fns iter (depth + 1) 1 [?z] [m]) [p] =
      [p\<lparr>color := vmul (vscale (Material.color m) (emittance m)) (accum_throughput p),
         remainingBounces := 0\<rparr>]"
    using assms(2,4)
    by (subst launch1d_one_path) (simp_all add: kernel_sample_f_def Let_def)
  show ?thesis
    unfolding bounce_def Let_def
    by (simp add: as_built_def example_scene_def assms(1,3) i s)
qed

lemma example_estimate:
  assumes "length (dev_paths d) = 1" and "length (dev_intersections d) = 1"
    and "emittance m > 0"
  shows "estimate (dev_paths (snd (snd (traced as_built example_fns
            ((example_scene 1)\<lparr>materials := [m]\<rparr>) iter d)))) 0 =
         vscale (Material.color m) (emittance m)"
proof -
  let ?sc = "(example_scene 1)\<lparr>materials := [m]\<rparr>"
  obtain q where q: "dev_paths d = [q]"
    using assms(1) by (cases "dev_paths d") simp_all
  obtain z where z: "dev_intersections d = [z]"
    using assms(2) by (cases "dev_intersections d") simp_all
  define p where "p = camera_segment as_built example_fns (example_camera (1, 1) 0) iter 1 0 0 q"
  let ?q = "p\<lparr>color := vmul (vscale (Material.color m) (emittance m)) (accum_throughput p),
      remainingBounces := 0\<rparr>"
  let ?d1 = "d\<lparr>dev_paths := [p]\<rparr>"
  have sc: "camera ?sc = example_camera (1, 1) 0" "traceDepth ?sc = 1"
    by (simp_all add: example_scene_def)
  have rs: "resolution (example_camera (1, 1) 0) = (1, 1)"
    by (simp add: example_camera_def)
  have gen: "launch2d (1, 1)
      (generateRayFromCamera as_built example_fns (example_camera (1, 1) 0) iter 1) [q] = [p]"
    unfolding p_def by (rule example_generate) (simp add: example_camera_def)
  have rp: "remainingBounces p \<noteq> 0" "pixelIndex p = 0" "accum_throughput p = Vec3 1 1 1"
    by (simp_all add: p_def camera_segment_fields rs)
  obtain d2 where b: "bounce as_built example_fns ?sc iter 1 0 1 ?d1 = (1, d2)"
    and d2: "dev_paths d2 = [?q]"
    using example_bounce_built [of ?d1 p z m 1 iter 0] rp(1) z assms(3) by simp
  have "dev_paths (snd (snd (trace_loop as_built example_fns ?sc iter 1 0 1 ?d1))) = [?q]"
    by (subst trace_loop.simps) (simp add: b d2 Let_def sc)
  then have "dev_paths (snd (snd (traced as_built example_fns ?sc iter d))) = [?q]"
    unfolding traced_def sc rs Let_def fst_conv snd_conv
    by (simp add: q gen)
  then show ?thesis
    using rp(2,3) by (cases "Material.color m") (simp add: estimate_def vmul_def vscale_def)
qed

text \<open>
  An instance: the one-pixel image looks at a cube that is a white light of emittance 3,
  the trace depth is 1, and the blend is \<open>float_mix\<close>. The estimate of every iteration is
  \<open>(3, 3, 3)\<close>, and after three iterations the pixel holds \<open>(3, 3, 3)\<close>.
\<close>

theorem progressive_mean_witness:
  "0 \<le> fst (resolution (camera ((example_scene 1)\<lparr>materials := [example_light]\<rparr>)))
   \<and> length [example_segment 0 0] =
       nat (fst (resolution (camera ((example_scene 1)\<lparr>materials := [example_light]\<rparr>)))
            * snd (resolution (camera ((example_scene 1)\<lparr>materials := [example_light]\<rparr>))))
   \<and> (\<forall>path pt nrm mat g. pixelIndex (sample_f example_fns path pt nrm mat g) = pixelIndex path)
   \<and> map (\<lambda>k. iteration_estimate as_built example_fns
               ((example_scene 1)\<lparr>materials := [example_light]\<rparr>)
               (pathtraceInit as_built ((example_scene 1)\<lparr>materials := [example_light]\<rparr>)
                  [example_segment 0 0] example_device) k 0) [0..<3] =
       [Vec3 3 3 3, Vec3 3 3 3, Vec3 3 3 3]
   \<and> dev_image (render as_built example_fns
         ((example_scene 1)\<lparr>materials := [example_light]\<rparr>) 3
         (pathtraceInit as_built ((example_scene 1)\<lparr>materials := [example_light]\<rparr>)
            [example_segment 0 0] example_device)) ! 0 = Vec3 3 3 3"
proof -
  let ?sc = "(example_scene 1)\<lparr>materials := [example_light]\<rparr>"
  let ?d0 = "pathtraceInit as_built ?sc [example_segment 0 0] example_device"
  have rs: "fst (resolution (camera ?sc)) = 1" "snd (resolution (camera ?sc)) = 1"
    "resolution (camera (example_scene 1)) = (1, 1)"
    by (simp_all add: example_scene_def example_camera_def)
  have h: "0 \<le> fst (resolution (camera ?sc))"
    "length [example_segment 0 0] = nat (fst (resolution (camera ?sc)) * snd (resolution (camera ?sc)))"
    "0 < nat (fst (resolution (camera ?sc)) * snd (resolution (camera ?sc)))"
    by (simp_all add: example_scene_def example_camera_def)
  have sf: "\<forall>path pt nrm mat g. pixelIndex (sample_f example_fns path pt nrm mat g) = pixelIndex path"
    by (simp add: example_fns_def example_sample_f_def Let_def split: prod.splits)
  have i: "length (dev_paths ?d0) = nat (fst (resolution (camera ?sc)) * snd (resolution (camera ?sc)))"
      "length (dev_intersections ?d0) =
        nat (fst (resolution (camera ?sc)) * snd (resolution (camera ?sc)))"
      "CACHE_FIRST_INTERSECTION as_built \<longrightarrow> length (dev_cached_intersections ?d0) =
        nat (fst (resolution (camera ?sc)) * snd (resolution (camera ?sc)))"
      "length (dev_image ?d0) = nat (fst (resolution (camera ?sc)) * snd (resolution (camera ?sc)))"
    by (simp_all add: pathtraceInit_def Let_def rs as_built_def)
  have len: "length (dev_paths (render as_built example_fns ?sc k ?d0)) = 1"
    "length (dev_intersections (render as_built example_fns ?sc k ?d0)) = 1" for k
    using render_invariant [OF sf h(1) i h(3), of k] by (simp_all add: rs)
  have est: "iteration_estimate as_built example_fns ?sc ?d0 k 0 = Vec3 3 3 3" for k
    unfolding iteration_estimate_def
    by (subst example_estimate [OF len]) (simp_all add: example_light_def vscale_def)
  have cs: "map (\<lambda>k. iteration_estimate as_built example_fns ?sc ?d0 k 0) [0..<3] =
      [Vec3 3 3 3, Vec3 3 3 3, Vec3 3 3 3]"
    by (simp add: est upt_rec)
  have gm: "glm_mix example_fns = float_mix"
    by (simp add: example_fns_def)
  from progressive_mean [OF h sf, of 3 as_built example_device, THEN conjunct1]
  have "dev_image (render as_built example_fns ?sc 3 ?d0) ! 0 = Vec3 3 3 3"
    unfolding cs gm example_blend by simp
  with h(1,2) sf cs show ?thesis
    by (intro conjI)
qed

text \<open>
  C2, as stated, fails: the arithmetic of the code is single precision, and the
  recurrence does not keep the mean there. Three iterations whose colours for the pixel
  are \<open>(1, 0, 0)\<close>, \<open>(0, 0, 0)\<close> and \<open>(0, 0, 0)\<close> leave \<open>5592405 / 16777216\<close> in the red channel
  (in hexadecimal floating point \<open>0x1.555554p-2\<close>), which is not the mean \<open>1/3\<close>, nor the
  single-precision number nearest to it, \<open>11184811 / 33554432\<close>. The value is the same for
  the two single-precision evaluations of the blend, \<open>float_mix\<close> and \<open>float_mix_alt\<close>.
\<close>

theorem progressive_mean_counterexample:
  "one_path_per_pixel 1 [(example_segment 0 0)\<lparr>color := Vec3 1 0 0\<rparr>]
   \<and> one_path_per_pixel 1 [example_segment 0 0]
   \<and> launch1d 1 (finalGather example_fns 1 3 [example_segment 0 0])
        (launch1d 1 (finalGather example_fns 1 2 [example_segment 0 0])
           (launch1d 1 (finalGather example_fns 1 1 [(example_segment 0 0)\<lparr>color := Vec3 1 0 0\<rparr>])
              [Vec3 0 0 0])) ! 0 = Vec3 (5592405 / 16777216) 0 0
   \<and> launch1d 1 (finalGather (example_fns\<lparr>glm_mix := float_mix_alt\<rparr>) 1 3 [example_segment 0 0])
        (launch1d 1 (finalGather (example_fns\<lparr>glm_mix := float_mix_alt\<rparr>) 1 2 [example_segment 0 0])
           (launch1d 1 (finalGather (example_fns\<lparr>glm_mix := float_mix_alt\<rparr>) 1 1
                [(example_segment 0 0)\<lparr>color := Vec3 1 0 0\<rparr>])
              [Vec3 0 0 0])) ! 0 = Vec3 (5592405 / 16777216) 0 0
   \<and> vscale (vsum [estimate [(example_segment 0 0)\<lparr>color := Vec3 1 0 0\<rparr>] 0,
                   estimate [example_segment 0 0] 0, estimate [example_segment 0 0] 0]) (1 / 3) =
       Vec3 (1 / 3) 0 0
   \<and> (5592405 / 16777216 :: real) \<noteq> 1 / 3
   \<and> binary32 (1 / 3) = 11184811 / 33554432"
proof -
  have v: "one_path_per_pixel 1 [(example_segment 0 0)\<lparr>color := Vec3 1 0 0\<rparr>]"
    "one_path_per_pixel 1 [example_segment 0 0]"
    by (simp_all add: one_path_per_pixel_def example_segment_def)
  have px: "pixelIndex ((example_segment 0 0)\<lparr>color := Vec3 1 0 0\<rparr>) = 0"
    "pixelIndex (example_segment 0 0) = 0"
    "color ((example_segment 0 0)\<lparr>color := Vec3 1 0 0\<rparr>) = Vec3 1 0 0"
    "color (example_segment 0 0) = Vec3 0 0 0"
    by (simp_all add: example_segment_def)
  have a: "launch1d 1 (finalGather example_fns 1 3 [example_segment 0 0])
        (launch1d 1 (finalGather example_fns 1 2 [example_segment 0 0])
           (launch1d 1 (finalGather example_fns 1 1 [(example_segment 0 0)\<lparr>color := Vec3 1 0 0\<rparr>])
              [Vec3 0 0 0])) ! 0 = Vec3 (5592405 / 16777216) 0 0"
    by (simp add: example_gather px example_weights example_fns_def float_mix_def binary32_def
        binade_numeral round_to_even_def Let_def)
  have b: "launch1d 1 (finalGather (example_fns\<lparr>glm_mix := float_mix_alt\<rparr>) 1 3 [example_segment 0 0])
        (launch1d 1 (finalGather (example_fns\<lparr>glm_mix := float_mix_alt\<rparr>) 1 2 [example_segment 0 0])
           (launch1d 1 (finalGather (example_fns\<lparr>glm_mix := float_mix_alt\<rparr>) 1 1
                [(example_segment 0 0)\<lparr>color := Vec3 1 0 0\<rparr>])
              [Vec3 0 0 0])) ! 0 = Vec3 (5592405 / 16777216) 0 0"
    by (simp add: example_gather px example_weights float_mix_alt_def binary32_def
        binade_numeral round_to_even_def Let_def)
  have c: "vscale (vsum [estimate [(example_segment 0 0)\<lparr>color := Vec3 1 0 0\<rparr>] 0,
                   estimate [example_segment 0 0] 0, estimate [example_segment 0 0] 0]) (1 / 3) =
       Vec3 (1 / 3) 0 0"
    by (simp add: estimate_def px vsum_def vadd_def vscale_def)
  have e: "(5592405 / 16777216 :: real) \<noteq> 1 / 3"
    by simp
  have f: "binary32 (1 / 3) = 11184811 / 33554432"
    by (simp add: binary32_def binade_numeral round_to_even_def Let_def)
  from v a b c e f show ?thesis
    by (intro conjI)
qed

end
